theory Spec2Isabelle
  imports Main "HOL-Library.Word" "HOL-Library.Multiset"
begin

section \<open>RTCSwitchServer: the room registry of main.go\<close>

text \<open>
  The server keeps one in-memory map from room id to room and serves three HTTP
  endpoints (create, destroy, list). Every handler touches the map inside a single
  critical section of \<open>roomsMu\<close>, so a handler is modelled as one atomic step from the
  map before to the map after, returning the response it writes.

  What a handler reads from outside the request and the map is passed in explicitly
  (record \<open>Env\<close> below): the value \<open>rand.Intn(10)\<close> returns, the value
  \<open>time.Now().Unix()\<close> returns, the order in which \<open>range rooms\<close> visits the keys, the
  case table of package \<open>unicode\<close> that \<open>strings.ToLower\<close> consults, and the reply the
  \<open>ServeMux\<close> writes itself for a path that is none of its patterns.
\<close>

subsection \<open>Types and constants\<close>

text \<open>\<open>type RTCType string\<close> and \<open>type RoomType string\<close> with their constants.\<close>

type_synonym RTCType = string

definition RTC_TRTC :: RTCType where
  "RTC_TRTC = ''TRTC''"

definition RTC_AGORA :: RTCType where
  "RTC_AGORA = ''Agora''"

type_synonym RoomType = string

definition RoomLive :: RoomType where
  "RoomLive = ''Live''"

definition RoomAudio :: RoomType where
  "RoomAudio = ''Audio''"

text \<open>\<open>CreateTime\<close> is an \<open>int64\<close>: a 64-bit word read as two's complement.\<close>

record Room =
  RoomID :: string
  OwnerUserID :: string
  CreateTime :: "64 word"
  RoomType :: RoomType
  RTCType :: RTCType

text \<open>
  The request structs. Their fields carry the prefix \<open>req_\<close> because \<open>RoomType\<close> and
  \<open>RoomID\<close> are fields of \<open>Room\<close> already.
\<close>

record CreateRoomRequest =
  req_UserID :: string
  req_RoomType :: string

record DestroyRoomRequest =
  req_RoomID :: string

text \<open>\<open>var rooms = make(map[string]Room)\<close>.\<close>

type_synonym rooms = "string \<rightharpoonup> Room"

subsection \<open>The HTTP and JSON layer\<close>

text \<open>
  A request body as \<open>json.Decoder\<close> sees it. \<open>Malformed\<close> is a body on which \<open>Decode\<close> returns
  an error whatever the target struct: no JSON at all, or a JSON string, number, boolean
  or array. \<open>Null\<close> is the JSON value \<open>null\<close>, which \<open>Decode\<close> accepts and which leaves the
  struct as it was. Otherwise the body is an object whose members are listed in order. Of a member's
  value only what decoding into a string field depends on is kept: a string, \<open>null\<close>,
  or a value of another JSON type. A member's name is recorded as the tag of the struct
  field the decoder assigns it to (the decoder also accepts a name that differs from the
  tag in letter case), and as itself when it selects no field.
\<close>

datatype json = JString string | JNull | JOther

datatype body = Malformed | Null | Object "(string \<times> json) list"

datatype decode_error = SyntaxError | UnmarshalTypeError

record Request =
  Method :: string
  Path :: string
  Body :: body

datatype payload =
  Text string
  | JSON_Room Room
  | JSON_List "Room list"
  | JSON_Map "(string \<times> string) list"

record Response =
  StatusCode :: nat
  ContentType :: string
  Payload :: payload

definition MethodGet :: string where
  "MethodGet = ''GET''"

definition MethodPost :: string where
  "MethodPost = ''POST''"

definition StatusOK :: nat where
  "StatusOK = 200"

definition StatusBadRequest :: nat where
  "StatusBadRequest = 400"

definition StatusNotFound :: nat where
  "StatusNotFound = 404"

definition StatusMethodNotAllowed :: nat where
  "StatusMethodNotAllowed = 405"

text \<open>\<open>http.Error(w, msg, code)\<close>: a plain-text reply, the message followed by a newline.\<close>

definition http_Error :: "string \<Rightarrow> nat \<Rightarrow> Response" where
  "http_Error msg code =
     \<lparr>StatusCode = code, ContentType = ''text/plain; charset=utf-8'',
      Payload = Text (msg @ [char_of (10::nat)])\<rparr>"

text \<open>
  Setting the content type and \<open>json.NewEncoder(w).Encode(v)\<close>: status 200 and the
  encoded value.
\<close>

definition json_reply :: "payload \<Rightarrow> Response" where
  "json_reply v = \<lparr>StatusCode = StatusOK, ContentType = ''application/json'', Payload = v\<rparr>"

text \<open>
  \<open>Decode(&req)\<close> into a struct of string fields walks the members in order: a member
  whose name is a field's tag stores a string value into the field, leaves the field
  alone on \<open>null\<close>, and makes the call return an error on any other value; other members
  are skipped. A later member with the same name overwrites an earlier one.
\<close>

fun Decode_CreateRoomRequest ::
  "(string \<times> json) list \<Rightarrow> CreateRoomRequest \<Rightarrow> decode_error + CreateRoomRequest" where
  "Decode_CreateRoomRequest [] req = Inr req"
| "Decode_CreateRoomRequest ((k, v) # ms) req =
     (if k = ''userid'' then
        (case v of
           JString s \<Rightarrow> Decode_CreateRoomRequest ms (req\<lparr>req_UserID := s\<rparr>)
         | JNull \<Rightarrow> Decode_CreateRoomRequest ms req
         | JOther \<Rightarrow> Inl UnmarshalTypeError)
      else if k = ''room_type'' then
        (case v of
           JString s \<Rightarrow> Decode_CreateRoomRequest ms (req\<lparr>req_RoomType := s\<rparr>)
         | JNull \<Rightarrow> Decode_CreateRoomRequest ms req
         | JOther \<Rightarrow> Inl UnmarshalTypeError)
      else Decode_CreateRoomRequest ms req)"

fun Decode_DestroyRoomRequest ::
  "(string \<times> json) list \<Rightarrow> DestroyRoomRequest \<Rightarrow> decode_error + DestroyRoomRequest" where
  "Decode_DestroyRoomRequest [] req = Inr req"
| "Decode_DestroyRoomRequest ((k, v) # ms) req =
     (if k = ''room_id'' then
        (case v of
           JString s \<Rightarrow> Decode_DestroyRoomRequest ms (req\<lparr>req_RoomID := s\<rparr>)
         | JNull \<Rightarrow> Decode_DestroyRoomRequest ms req
         | JOther \<Rightarrow> Inl UnmarshalTypeError)
      else Decode_DestroyRoomRequest ms req)"

text \<open>\<open>var req CreateRoomRequest\<close> and \<open>var req DestroyRoomRequest\<close>: the zero values.\<close>

definition zero_CreateRoomRequest :: CreateRoomRequest where
  "zero_CreateRoomRequest = \<lparr>req_UserID = [], req_RoomType = []\<rparr>"

definition zero_DestroyRoomRequest :: DestroyRoomRequest where
  "zero_DestroyRoomRequest = \<lparr>req_RoomID = []\<rparr>"

definition decode_create :: "body \<Rightarrow> decode_error + CreateRoomRequest" where
  "decode_create b =
     (case b of
        Malformed \<Rightarrow> Inl SyntaxError
      | Null \<Rightarrow> Inr zero_CreateRoomRequest
      | Object ms \<Rightarrow> Decode_CreateRoomRequest ms zero_CreateRoomRequest)"

definition decode_destroy :: "body \<Rightarrow> decode_error + DestroyRoomRequest" where
  "decode_destroy b =
     (case b of
        Malformed \<Rightarrow> Inl SyntaxError
      | Null \<Rightarrow> Inr zero_DestroyRoomRequest
      | Object ms \<Rightarrow> Decode_DestroyRoomRequest ms zero_DestroyRoomRequest)"

subsection \<open>The environment of a handler\<close>

text \<open>
  A \<open>rune\<close> is a Unicode code point. \<open>unicode_To_LowerCase\<close> stands for
  \<open>unicode.To(unicode.LowerCase, r)\<close>, the lookup in the library's \<open>CaseRanges\<close> table, which
  \<open>unicode.ToLower\<close> uses for code points above \<open>MaxASCII\<close>. \<open>ServeMux_reply\<close> is what the
  mux answers itself when the path is none of its three patterns: 404 page not found,
  or a 301 redirect to the cleaned path when the path is not in canonical form.
\<close>

type_synonym rune = nat

record Env =
  rand_Intn_10 :: int
  time_Now_Unix :: "64 word"
  range_rooms :: "string list"
  unicode_To_LowerCase :: "rune \<Rightarrow> rune"
  ServeMux_reply :: Response

text \<open>\<open>rand.Intn(10)\<close> returns a value in the half-open interval from 0 to 10.\<close>

definition Intn_10_result :: "int \<Rightarrow> bool" where
  "Intn_10_result u = (0 \<le> u \<and> u < 10)"

text \<open>
  \<open>for _, v := range rooms\<close> visits every key of the map once, in an order the language
  leaves open.
\<close>

definition range_visits :: "string list \<Rightarrow> rooms \<Rightarrow> bool" where
  "range_visits ks rooms = (distinct ks \<and> set ks = dom rooms)"

subsection \<open>chooseRTC and generateRoomID\<close>

text \<open>
  The \<open>switch u\<close> of \<open>chooseRTC\<close>, with the arm taken made visible: the two case lists and
  the default.
\<close>

datatype switch_arm = Case_0_to_5 | Case_6_to_9 | Default

definition chooseRTC_arm :: "int \<Rightarrow> switch_arm" where
  "chooseRTC_arm u =
     (if u = 0 \<or> u = 1 \<or> u = 2 \<or> u = 3 \<or> u = 4 \<or> u = 5 then Case_0_to_5
      else if u = 6 \<or> u = 7 \<or> u = 8 \<or> u = 9 then Case_6_to_9
      else Default)"

definition chooseRTC :: "int \<Rightarrow> RTCType" where
  "chooseRTC u =
     (case chooseRTC_arm u of
        Case_0_to_5 \<Rightarrow> RTC_TRTC
      | Case_6_to_9 \<Rightarrow> RTC_AGORA
      | Default \<Rightarrow> RTC_TRTC)"

definition generateRoomID :: "string \<Rightarrow> string" where
  "generateRoomID userid = ''rm_'' @ userid"

subsection \<open>strings.ToLower and the room type\<close>

text \<open>
  \<open>utf8.DecodeRuneInString\<close> on a non-empty string, given as its first byte and the rest:
  the code point and the number of bytes it takes. A byte that starts no valid
  encoding, a truncated encoding, an overlong one and an encoded surrogate all give
  \<open>RuneError\<close> with width 1. The masks and shifts of the library are written with
  \<open>mod\<close> and multiplication.
\<close>

definition RuneError :: rune where
  "RuneError = 65533"

definition DecodeRune :: "nat \<Rightarrow> nat list \<Rightarrow> rune \<times> nat" where
  "DecodeRune s0 rest =
     (if s0 < 128 then (s0, 1)
      else if s0 < 194 \<or> 244 < s0 then (RuneError, 1)
      else
        (let sz = (if s0 < 224 then 2 else if s0 < 240 then 3 else 4 :: nat);
             lo = (if s0 = 224 then 160 else if s0 = 240 then 144 else 128 :: nat);
             hi = (if s0 = 237 then 159 else if s0 = 244 then 143 else 191 :: nat)
         in if Suc (length rest) < sz then (RuneError, 1)
            else if rest ! 0 < lo \<or> hi < rest ! 0 then (RuneError, 1)
            else if sz \<le> 2 then ((s0 mod 32) * 64 + rest ! 0 mod 64, 2)
            else if rest ! 1 < 128 \<or> 191 < rest ! 1 then (RuneError, 1)
            else if sz \<le> 3
              then ((s0 mod 16) * 4096 + (rest ! 0 mod 64) * 64 + rest ! 1 mod 64, 3)
            else if rest ! 2 < 128 \<or> 191 < rest ! 2 then (RuneError, 1)
            else ((s0 mod 8) * 262144 + (rest ! 0 mod 64) * 4096 + (rest ! 1 mod 64) * 64
                    + rest ! 2 mod 64, 4)))"

text \<open>\<open>for _, c := range s\<close>: the code points of a string of bytes, one after the other.\<close>

function range_string :: "nat list \<Rightarrow> rune list" where
  "range_string [] = []"
| "range_string (s0 # rest) =
     fst (DecodeRune s0 rest) # range_string (drop (snd (DecodeRune s0 rest) - 1) rest)"
  by pat_completeness auto
termination
  by (relation "measure length") simp_all

text \<open>
  \<open>utf8.AppendRune\<close>: the bytes of a code point; a surrogate or a value above
  \<open>MaxRune\<close> is written as \<open>RuneError\<close>.
\<close>

definition EncodeRune :: "rune \<Rightarrow> nat list" where
  "EncodeRune r =
     (if r \<le> 127 then [r]
      else if r \<le> 2047 then [192 + r div 64, 128 + r mod 64]
      else if 1114111 < r \<or> (55296 \<le> r \<and> r \<le> 57343) then [239, 191, 189]
      else if r \<le> 65535
        then [224 + r div 4096, 128 + (r div 64) mod 64, 128 + r mod 64]
      else [240 + r div 262144, 128 + (r div 4096) mod 64, 128 + (r div 64) mod 64,
            128 + r mod 64])"

text \<open>
  \<open>strings.Map(mapping, s)\<close> for a mapping that drops no code point: the encodings of the
  mapped code points of \<open>s\<close>. (The library copies a prefix of unchanged, validly encoded
  code points instead of re-encoding it, which gives the same bytes.)
\<close>

definition strings_Map :: "(rune \<Rightarrow> rune) \<Rightarrow> string \<Rightarrow> string" where
  "strings_Map mapping s =
     map char_of (concat (map (\<lambda>c. EncodeRune (mapping c)) (range_string (map of_char s))))"

text \<open>
  \<open>unicode.ToLower\<close>: up to \<open>MaxASCII\<close> the letters \<open>A\<close> to \<open>Z\<close> move to \<open>a\<close> to \<open>z\<close> and
  nothing else changes; above, the case table decides.
\<close>

definition unicode_ToLower :: "(rune \<Rightarrow> rune) \<Rightarrow> rune \<Rightarrow> rune" where
  "unicode_ToLower to_lower r =
     (if r \<le> 127 then (if 65 \<le> r \<and> r \<le> 90 then r + 32 else r) else to_lower r)"

text \<open>
  \<open>strings.ToLower\<close>. A string is a sequence of bytes. When every byte is below \<open>0x80\<close>
  the library maps \<open>A\<close> to \<open>Z\<close> onto \<open>a\<close> to \<open>z\<close> byte by byte and keeps the other bytes.
  Otherwise it returns \<open>Map(unicode.ToLower, s)\<close>.
\<close>

definition isASCII :: "string \<Rightarrow> bool" where
  "isASCII s = list_all (\<lambda>c. (of_char c :: nat) < 128) s"

definition toLowerASCII :: "char \<Rightarrow> char" where
  "toLowerASCII c =
     (if 65 \<le> (of_char c :: nat) \<and> (of_char c :: nat) \<le> 90
      then char_of ((of_char c :: nat) + 32) else c)"

definition ToLower :: "(rune \<Rightarrow> rune) \<Rightarrow> string \<Rightarrow> string" where
  "ToLower to_lower s =
     (if isASCII s then map toLowerASCII s else strings_Map (unicode_ToLower to_lower) s)"

text \<open>
  Lines 90 to 93 of \<open>createRoomHandler\<close>:
  \<open>rt := RoomLive; if strings.ToLower(req.RoomType) == "audio" { rt = RoomAudio }\<close>.
\<close>

definition normalizeRoomType :: "(rune \<Rightarrow> rune) \<Rightarrow> string \<Rightarrow> RoomType" where
  "normalizeRoomType to_lower s =
     (if ToLower to_lower s = ''audio'' then RoomAudio else RoomLive)"

subsection \<open>The handlers\<close>

definition createRoomHandler :: "Env \<Rightarrow> Request \<Rightarrow> rooms \<Rightarrow> Response \<times> rooms" where
  "createRoomHandler env r rooms =
     (if Method r \<noteq> MethodPost
      then (http_Error ''method not allowed'' StatusMethodNotAllowed, rooms)
      else
        (case decode_create (Body r) of
           Inl err \<Rightarrow> (http_Error ''invalid request'' StatusBadRequest, rooms)
         | Inr req \<Rightarrow>
             (let rt = normalizeRoomType (unicode_To_LowerCase env) (req_RoomType req);
                  id = generateRoomID (req_UserID req);
                  rtc = chooseRTC (rand_Intn_10 env);
                  room = \<lparr>RoomID = id, OwnerUserID = req_UserID req,
                          CreateTime = time_Now_Unix env, RoomType = rt, RTCType = rtc\<rparr>
              in (json_reply (JSON_Room room), rooms(id \<mapsto> room)))))"

definition destroyRoomHandler :: "Request \<Rightarrow> rooms \<Rightarrow> Response \<times> rooms" where
  "destroyRoomHandler r rooms =
     (if Method r \<noteq> MethodPost
      then (http_Error ''method not allowed'' StatusMethodNotAllowed, rooms)
      else
        (case decode_destroy (Body r) of
           Inl err \<Rightarrow> (http_Error ''invalid request'' StatusBadRequest, rooms)
         | Inr req \<Rightarrow>
             (if rooms (req_RoomID req) = None
              then (http_Error ''room not found'' StatusNotFound, rooms)
              else (json_reply (JSON_Map [(''result'', ''ok'')]),
                    rooms(req_RoomID req := None)))))"

text \<open>
  \<open>sort.Slice(list, less)\<close> of the Go library promises a permutation of the slice in
  which no element is \<open>less\<close> than one before it, and nothing about elements that
  compare equal. The algorithm written out here is the library's
  \<open>insertionSortLessFunc\<close>, which is what current versions run on slices of at most 12
  elements: each element in turn moves left past its predecessors for as long as it is
  \<open>less\<close> than the one before it. The theorems about listing rest on two facts about
  it only: the result is a permutation of the input, and it is in descending order.
  (From 13 elements on the library runs another algorithm and may leave elements that
  compare equal in another order.)
\<close>

definition insertLess :: "('a \<Rightarrow> 'a \<Rightarrow> bool) \<Rightarrow> 'a list \<Rightarrow> 'a \<Rightarrow> 'a list" where
  "insertLess lessf ys x =
     rev (dropWhile (lessf x) (rev ys)) @ x # rev (takeWhile (lessf x) (rev ys))"

definition sort_Slice :: "('a \<Rightarrow> 'a \<Rightarrow> bool) \<Rightarrow> 'a list \<Rightarrow> 'a list" where
  "sort_Slice lessf xs = foldl (insertLess lessf) [] xs"

text \<open>The comparison passed to \<open>sort.Slice\<close>: \<open>list[i].CreateTime > list[j].CreateTime\<close>.\<close>

definition less_CreateTime :: "Room \<Rightarrow> Room \<Rightarrow> bool" where
  "less_CreateTime a b = (sint (CreateTime a) > sint (CreateTime b))"

text \<open>The loop \<open>for _, v := range rooms { list = append(list, v) }\<close>.\<close>

definition snapshot :: "string list \<Rightarrow> rooms \<Rightarrow> Room list" where
  "snapshot ks rooms = List.map_filter rooms ks"

definition listRoomsHandler :: "Env \<Rightarrow> Request \<Rightarrow> rooms \<Rightarrow> Response \<times> rooms" where
  "listRoomsHandler env r rooms =
     (if Method r \<noteq> MethodGet
      then (http_Error ''method not allowed'' StatusMethodNotAllowed, rooms)
      else
        (let list = snapshot (range_rooms env) rooms
         in (json_reply (JSON_List (sort_Slice less_CreateTime list)), rooms)))"

text \<open>
  The routing of \<open>main\<close>: three patterns without a trailing slash, each matching exactly
  its path. For any other path no handler runs and the mux writes its own reply.
\<close>

definition serveMux :: "Env \<Rightarrow> Request \<Rightarrow> rooms \<Rightarrow> Response \<times> rooms" where
  "serveMux env r rooms =
     (if Path r = ''/room/create'' then createRoomHandler env r rooms
      else if Path r = ''/room/destroy'' then destroyRoomHandler r rooms
      else if Path r = ''/room/list'' then listRoomsHandler env r rooms
      else (ServeMux_reply env, rooms))"

text \<open>A run of the server: requests served one after the other, each in its environment.\<close>

fun run :: "(Env \<times> Request) list \<Rightarrow> rooms \<Rightarrow> rooms" where
  "run [] rooms = rooms"
| "run ((env, r) # rs) rooms = run rs (snd (serveMux env r rooms))"

subsection \<open>Notions the properties are stated with\<close>

text \<open>
  A string matches \<open>audio\<close> case-insensitively when it has five characters, each the
  right letter in upper or lower case.
\<close>

definition audio_spelling :: "string \<Rightarrow> bool" where
  "audio_spelling s =
     list_all2 (\<lambda>c both. c \<in> set both) s [''aA'', ''uU'', ''dD'', ''iI'', ''oO'']"

text \<open>
  The lower-case mappings of the code points of a string, and the code points of
  \<open>audio\<close>.
\<close>

definition lower_runes :: "(rune \<Rightarrow> rune) \<Rightarrow> string \<Rightarrow> rune list" where
  "lower_runes to_lower s = map (unicode_ToLower to_lower) (range_string (map of_char s))"

definition audio_runes :: "rune list" where
  "audio_runes = [97, 117, 100, 105, 111]"

text \<open>
  A request is a colliding create for a room id when it is a create that decodes to a
  user id with that room id, and it destroys the id when it is a destroy that decodes
  to it.
\<close>

definition colliding_create :: "string \<Rightarrow> Request \<Rightarrow> bool" where
  "colliding_create rid q =
     (Path q = ''/room/create'' \<and> Method q = MethodPost \<and>
      (case decode_create (Body q) of
         Inl err \<Rightarrow> False
       | Inr req \<Rightarrow> generateRoomID (req_UserID req) = rid))"

definition destroys :: "string \<Rightarrow> Request \<Rightarrow> bool" where
  "destroys rid q =
     (Path q = ''/room/destroy'' \<and> Method q = MethodPost \<and>
      (case decode_destroy (Body q) of
         Inl err \<Rightarrow> False
       | Inr req \<Rightarrow> req_RoomID req = rid))"

definition leaves_alone :: "string \<Rightarrow> (Env \<times> Request) list \<Rightarrow> bool" where
  "leaves_alone rid rs =
     list_all (\<lambda>(env, q). \<not> colliding_create rid q \<and> \<not> destroys rid q) rs"

text \<open>The same destroy request served \<open>n\<close> times in a row.\<close>

definition destroy_repeatedly :: "Request \<Rightarrow> nat \<Rightarrow> rooms \<Rightarrow> rooms" where
  "destroy_repeatedly r n rooms = ((\<lambda>s. snd (destroyRoomHandler r s)) ^^ n) rooms"

text \<open>
  The invariant of the map: every entry's key is the \<open>RoomID\<close> of its room, and that is
  \<open>rm_\<close> followed by the room's \<open>OwnerUserID\<close>.
\<close>

definition entry_ok :: "string \<Rightarrow> Room \<Rightarrow> bool" where
  "entry_ok k room = (k = RoomID room \<and> RoomID room = ''rm_'' @ OwnerUserID room)"

definition store_inv :: "rooms \<Rightarrow> bool" where
  "store_inv rooms = (\<forall>k room. rooms k = Some room \<longrightarrow> entry_ok k room)"

subsection \<open>Concrete inputs\<close>

definition env_example :: Env where
  "env_example = \<lparr>rand_Intn_10 = 7, time_Now_Unix = 1700000000, range_rooms = [''rm_5''],
     unicode_To_LowerCase = (\<lambda>r. r),
     ServeMux_reply = http_Error ''404 page not found'' StatusNotFound\<rparr>"

definition create_example :: Request where
  "create_example = \<lparr>Method = ''POST'', Path = ''/room/create'',
     Body = Object [(''userid'', JString ''5''), (''room_type'', JString ''Live'')]\<rparr>"

definition destroy_example :: Request where
  "destroy_example = \<lparr>Method = ''POST'', Path = ''/room/destroy'',
     Body = Object [(''room_id'', JString ''rm_5'')]\<rparr>"

definition list_example :: Request where
  "list_example = \<lparr>Method = ''GET'', Path = ''/room/list'', Body = Malformed\<rparr>"

definition room_example :: Room where
  "room_example = \<lparr>RoomID = ''rm_5'', OwnerUserID = ''5'',
        CreateTime = 1700000000, RoomType = RoomLive, RTCType = RTC_AGORA\<rparr>"

text \<open>
  The bytes of \<open>aud\<close>, of the code point U+0130 in UTF-8 and of \<open>o\<close>. The library's case
  table has the entry \<open>{0x0130, 0x0130, d{0, -199, 0}}\<close>, which sends U+0130 to the letter
  \<open>i\<close>; \<open>CaseRanges_0130\<close> is the table with this one entry.
\<close>

definition dotted_I_audio :: string where
  "dotted_I_audio = ''aud'' @ [char_of (196 :: nat), char_of (176 :: nat)] @ ''o''"

definition CaseRanges_0130 :: "rune \<Rightarrow> rune" where
  "CaseRanges_0130 r = (if r = 304 then r - 199 else r)"

definition env_dotted :: Env where
  "env_dotted = \<lparr>rand_Intn_10 = 4, time_Now_Unix = 1700000200, range_rooms = [''rm_5''],
     unicode_To_LowerCase = CaseRanges_0130,
     ServeMux_reply = http_Error ''404 page not found'' StatusNotFound\<rparr>"

definition create_dotted :: Request where
  "create_dotted = \<lparr>Method = ''POST'', Path = ''/room/create'',
     Body = Object [(''userid'', JString ''5''), (''room_type'', JString dotted_I_audio)]\<rparr>"

definition room_dotted :: Room where
  "room_dotted = \<lparr>RoomID = ''rm_5'', OwnerUserID = ''5'',
        CreateTime = 1700000200, RoomType = RoomAudio, RTCType = RTC_TRTC\<rparr>"

text \<open>Three rooms created at times 100, 200 and 300, and a visiting order for them.\<close>

definition room_early :: Room where
  "room_early = \<lparr>RoomID = ''rm_1'', OwnerUserID = ''1'', CreateTime = 100,
     RoomType = RoomLive, RTCType = RTC_TRTC\<rparr>"

definition room_middle :: Room where
  "room_middle = \<lparr>RoomID = ''rm_2'', OwnerUserID = ''2'', CreateTime = 200,
     RoomType = RoomAudio, RTCType = RTC_AGORA\<rparr>"

definition room_late :: Room where
  "room_late = \<lparr>RoomID = ''rm_3'', OwnerUserID = ''3'', CreateTime = 300,
     RoomType = RoomLive, RTCType = RTC_TRTC\<rparr>"

definition three_rooms :: rooms where
  "three_rooms = [''rm_1'' \<mapsto> room_early, ''rm_2'' \<mapsto> room_middle, ''rm_3'' \<mapsto> room_late]"

definition env_list :: Env where
  "env_list = \<lparr>rand_Intn_10 = 0, time_Now_Unix = 400,
     range_rooms = [''rm_2'', ''rm_3'', ''rm_1''], unicode_To_LowerCase = (\<lambda>r. r),
     ServeMux_reply = http_Error ''404 page not found'' StatusNotFound\<rparr>"

text \<open>A second create for user \<open>5\<close>, fifty seconds later, asking for an audio room.\<close>

definition env_again :: Env where
  "env_again = \<lparr>rand_Intn_10 = 2, time_Now_Unix = 1700000050, range_rooms = [''rm_5''],
     unicode_To_LowerCase = (\<lambda>r. r),
     ServeMux_reply = http_Error ''404 page not found'' StatusNotFound\<rparr>"

definition create_again :: Request where
  "create_again = \<lparr>Method = ''POST'', Path = ''/room/create'',
     Body = Object [(''room_type'', JString ''AUDIO''), (''userid'', JString ''5'')]\<rparr>"

definition room_again :: Room where
  "room_again = \<lparr>RoomID = ''rm_5'', OwnerUserID = ''5'',
        CreateTime = 1700000050, RoomType = RoomAudio, RTCType = RTC_TRTC\<rparr>"

text \<open>A create for user \<open>7\<close>, and a session of four requests.\<close>

definition env_seven :: Env where
  "env_seven = \<lparr>rand_Intn_10 = 9, time_Now_Unix = 1700000100, range_rooms = [''rm_7'', ''rm_5''],
     unicode_To_LowerCase = (\<lambda>r. r),
     ServeMux_reply = http_Error ''404 page not found'' StatusNotFound\<rparr>"

definition create_seven :: Request where
  "create_seven = \<lparr>Method = ''POST'', Path = ''/room/create'',
     Body = Object [(''userid'', JString ''7''), (''room_type'', JString ''audio'')]\<rparr>"

definition room_seven :: Room where
  "room_seven = \<lparr>RoomID = ''rm_7'', OwnerUserID = ''7'',
        CreateTime = 1700000100, RoomType = RoomAudio, RTCType = RTC_AGORA\<rparr>"

definition session_example :: "(Env \<times> Request) list" where
  "session_example =
     [(env_example, create_example), (env_seven, create_seven), (env_seven, list_example),
      (env_example, destroy_example)]"

text \<open>
  What happens between a create for user \<open>5\<close> on the three rooms and a later list: a
  create for user \<open>7\<close>, a destroy of \<open>rm_1\<close>, a destroy with a \<open>null\<close> body and a request
  for a path the mux does not know.
\<close>

definition destroy_early :: Request where
  "destroy_early = \<lparr>Method = ''POST'', Path = ''/room/destroy'',
     Body = Object [(''room_id'', JString ''rm_1'')]\<rparr>"

definition destroy_null :: Request where
  "destroy_null = \<lparr>Method = ''POST'', Path = ''/room/destroy'', Body = Null\<rparr>"

definition unknown_path :: Request where
  "unknown_path = \<lparr>Method = ''GET'', Path = ''/room'', Body = Malformed\<rparr>"

definition between_example :: "(Env \<times> Request) list" where
  "between_example =
     [(env_seven, create_seven), (env_example, destroy_early), (env_example, destroy_null),
      (env_example, unknown_path)]"

definition env_later :: Env where
  "env_later = \<lparr>rand_Intn_10 = 1, time_Now_Unix = 1700000300,
     range_rooms = [''rm_3'', ''rm_5'', ''rm_7'', ''rm_2''],
     unicode_To_LowerCase = (\<lambda>r. r),
     ServeMux_reply = http_Error ''404 page not found'' StatusNotFound\<rparr>"

definition later_rooms :: rooms where
  "later_rooms = [''rm_2'' \<mapsto> room_middle, ''rm_3'' \<mapsto> room_late,
     ''rm_5'' \<mapsto> room_example, ''rm_7'' \<mapsto> room_seven]"

text \<open>A create whose body is the empty object.\<close>

definition create_empty_object :: Request where
  "create_empty_object = \<lparr>Method = ''POST'', Path = ''/room/create'', Body = Object []\<rparr>"

definition room_no_owner :: Room where
  "room_no_owner = \<lparr>RoomID = ''rm_'', OwnerUserID = [],
        CreateTime = 1700000000, RoomType = RoomLive, RTCType = RTC_AGORA\<rparr>"

section \<open>Properties\<close>

subsection \<open>Auxiliary facts\<close>

lemma toLowerASCII_eq_iff:
  "toLowerASCII c = d \<longleftrightarrow>
     (if 65 \<le> (of_char c :: nat) \<and> (of_char c :: nat) \<le> 90
      then (of_char d :: nat) = of_char c + 32 else d = c)"
  by (auto simp: toLowerASCII_def char_of_eq_iff take_bit_eq_mod)

lemma toLowerASCII_a: "toLowerASCII c = CHR ''a'' \<longleftrightarrow> c = CHR ''a'' \<or> c = CHR ''A''"
  by (simp add: toLowerASCII_eq_iff) (auto simp flip: of_char_eq_iff [where ?'a = nat])

lemma toLowerASCII_u: "toLowerASCII c = CHR ''u'' \<longleftrightarrow> c = CHR ''u'' \<or> c = CHR ''U''"
  by (simp add: toLowerASCII_eq_iff) (auto simp flip: of_char_eq_iff [where ?'a = nat])

lemma toLowerASCII_d: "toLowerASCII c = CHR ''d'' \<longleftrightarrow> c = CHR ''d'' \<or> c = CHR ''D''"
  by (simp add: toLowerASCII_eq_iff) (auto simp flip: of_char_eq_iff [where ?'a = nat])

lemma toLowerASCII_i: "toLowerASCII c = CHR ''i'' \<longleftrightarrow> c = CHR ''i'' \<or> c = CHR ''I''"
  by (simp add: toLowerASCII_eq_iff) (auto simp flip: of_char_eq_iff [where ?'a = nat])

lemma toLowerASCII_o: "toLowerASCII c = CHR ''o'' \<longleftrightarrow> c = CHR ''o'' \<or> c = CHR ''O''"
  by (simp add: toLowerASCII_eq_iff) (auto simp flip: of_char_eq_iff [where ?'a = nat])

lemma map_eq_list_all2: "map f xs = ys \<longleftrightarrow> list_all2 (\<lambda>x y. f x = y) xs ys"
  by (induction xs arbitrary: ys) (auto simp: list_all2_Cons1)

lemma map_toLowerASCII_audio: "map toLowerASCII s = ''audio'' \<longleftrightarrow> audio_spelling s"
  unfolding map_eq_list_all2 audio_spelling_def
  by (simp add: list_all2_Cons2 toLowerASCII_a toLowerASCII_u toLowerASCII_d toLowerASCII_i
      toLowerASCII_o)

lemma audio_spelling_isASCII: "audio_spelling s \<Longrightarrow> isASCII s"
  by (auto simp: audio_spelling_def isASCII_def list_all2_Cons2)

text \<open>Encoding and decoding, as far as the comparison with \<open>audio\<close> needs them.\<close>

lemma EncodeRune_ascii: "r \<le> 127 \<Longrightarrow> EncodeRune r = [r]"
  by (simp add: EncodeRune_def)

lemma EncodeRune_non_ascii:
  "127 < r \<Longrightarrow> \<exists>b bs. EncodeRune r = b # bs \<and> 128 \<le> b"
  by (simp add: EncodeRune_def)

lemma EncodeRune_byte: "b \<in> set (EncodeRune r) \<Longrightarrow> b < 256"
  unfolding EncodeRune_def
  by (simp split: if_splits; (elim disjE; simp)?; linarith?)

lemma range_string_ascii: "list_all (\<lambda>b. b < 128) bs \<Longrightarrow> range_string bs = bs"
  by (induction bs) (simp_all add: DecodeRune_def)

lemma concat_EncodeRune_ascii:
  assumes "list_all (\<lambda>b. b < 128) t"
  shows "concat (map (\<lambda>c. EncodeRune (f c)) rs) = t \<longleftrightarrow> map f rs = t"
  using assms
proof (induction rs arbitrary: t)
  case Nil
  then show ?case by auto
next
  case (Cons r rs)
  show ?case
  proof (cases "f r \<le> 127")
    case True
    then show ?thesis
      using Cons by (cases t) (auto simp: EncodeRune_ascii)
  next
    case False
    then obtain b bs where e: "EncodeRune (f r) = b # bs" and b: "128 \<le> b"
      using EncodeRune_non_ascii [of "f r"] by auto
    from False Cons.prems e b show ?thesis
      by (cases t) auto
  qed
qed

lemma map_char_of_eq:
  assumes "\<forall>b \<in> set bs. b < (256 :: nat)"
  shows "map char_of bs = s \<longleftrightarrow> bs = map of_char s"
proof
  assume "map char_of bs = s"
  then have "map of_char s = map (\<lambda>b. of_char (char_of b :: char)) bs" by auto
  also have "\<dots> = map (\<lambda>b. b) bs"
    using assms by (intro map_cong refl) simp
  finally show "bs = map of_char s" by simp
next
  assume "bs = map of_char s"
  then show "map char_of bs = s" by (simp add: comp_def)
qed

lemma strings_Map_audio:
  "strings_Map f s = ''audio'' \<longleftrightarrow> map f (range_string (map of_char s)) = audio_runes"
proof -
  let ?out = "concat (map (\<lambda>c. EncodeRune (f c)) (range_string (map of_char s)))"
  have "\<forall>b \<in> set ?out. b < 256"
    by (auto dest: EncodeRune_byte)
  then have "strings_Map f s = ''audio'' \<longleftrightarrow> ?out = map of_char ''audio''"
    unfolding strings_Map_def by (rule map_char_of_eq)
  also have "\<dots> \<longleftrightarrow> ?out = audio_runes"
    by (simp add: audio_runes_def)
  also have "\<dots> \<longleftrightarrow> map f (range_string (map of_char s)) = audio_runes"
    by (rule concat_EncodeRune_ascii) (simp add: audio_runes_def)
  finally show ?thesis .
qed

lemma lower_runes_ascii:
  assumes "isASCII s"
  shows "lower_runes to_lower s = map of_char (map toLowerASCII s)"
proof -
  from assms have "list_all (\<lambda>b. b < 128) (map of_char s :: nat list)"
    by (simp add: isASCII_def list_all_iff)
  then have "range_string (map of_char s) = map of_char s"
    by (rule range_string_ascii)
  moreover have "unicode_ToLower to_lower (of_char c) = of_char (toLowerASCII c)"
    if "(of_char c :: nat) < 128" for c
    using that by (simp add: unicode_ToLower_def toLowerASCII_def)
  ultimately show ?thesis
    using assms by (simp add: lower_runes_def isASCII_def list_all_iff)
qed

lemma ToLower_audio_iff:
  "ToLower to_lower s = ''audio'' \<longleftrightarrow> lower_runes to_lower s = audio_runes"
proof (cases "isASCII s")
  case True
  have "map toLowerASCII s = ''audio''
      \<longleftrightarrow> map of_char (map toLowerASCII s) = (map of_char ''audio'' :: nat list)"
    by (simp only: inj_map_eq_map [OF inj_of_char])
  also have "\<dots> \<longleftrightarrow> lower_runes to_lower s = audio_runes"
    by (simp add: lower_runes_ascii [OF True] audio_runes_def)
  finally show ?thesis using True by (simp add: ToLower_def)
next
  case False
  then show ?thesis
    by (simp add: ToLower_def strings_Map_audio lower_runes_def)
qed

lemma normalizeRoomType_ascii:
  "isASCII s \<Longrightarrow> normalizeRoomType to_lower s = (if audio_spelling s then RoomAudio else RoomLive)"
  by (simp add: normalizeRoomType_def ToLower_def map_toLowerASCII_audio)

lemma create_example_decodes:
  "Method create_example = MethodPost \<and>
   decode_create (Body create_example) = Inr \<lparr>req_UserID = ''5'', req_RoomType = ''Live''\<rparr>"
  by (simp add: create_example_def MethodPost_def decode_create_def zero_CreateRoomRequest_def)

lemma create_again_decodes:
  "Method create_again = MethodPost \<and>
   decode_create (Body create_again) = Inr \<lparr>req_UserID = ''5'', req_RoomType = ''AUDIO''\<rparr>"
  by (simp add: create_again_def MethodPost_def decode_create_def zero_CreateRoomRequest_def)

lemma create_again_result:
  "createRoomHandler env_again create_again rooms =
     (json_reply (JSON_Room room_again), rooms(''rm_5'' \<mapsto> room_again))"
  by (simp add: createRoomHandler_def env_again_def create_again_def MethodPost_def
      decode_create_def zero_CreateRoomRequest_def generateRoomID_def chooseRTC_def
      chooseRTC_arm_def normalizeRoomType_def ToLower_def isASCII_def toLowerASCII_def
      char_of_eq_iff Let_def room_again_def)

lemma create_seven_result:
  "createRoomHandler env_seven create_seven rooms =
     (json_reply (JSON_Room room_seven), rooms(''rm_7'' \<mapsto> room_seven))"
  by (simp add: createRoomHandler_def env_seven_def create_seven_def MethodPost_def
      decode_create_def zero_CreateRoomRequest_def generateRoomID_def chooseRTC_def
      chooseRTC_arm_def normalizeRoomType_def ToLower_def isASCII_def toLowerASCII_def
      char_of_eq_iff Let_def room_seven_def)

lemma chooseRTC_cases: "chooseRTC u = RTC_TRTC \<or> chooseRTC u = RTC_AGORA"
  by (simp add: chooseRTC_def split: switch_arm.split)

text \<open>A create that answers with a room took the success path, and the room is the one built there.\<close>

lemma createRoomHandler_returns_room:
  assumes "createRoomHandler env r rooms = (resp, rooms')"
    and "Payload resp = JSON_Room room"
  shows "\<exists>req. Method r = MethodPost \<and> decode_create (Body r) = Inr req \<and>
           RoomID room = generateRoomID (req_UserID req) \<and>
           OwnerUserID room = req_UserID req \<and>
           CreateTime room = time_Now_Unix env \<and>
           RoomType room = normalizeRoomType (unicode_To_LowerCase env) (req_RoomType req) \<and>
           RTCType room = chooseRTC (rand_Intn_10 env) \<and>
           resp = json_reply (JSON_Room room) \<and> rooms' = rooms(RoomID room \<mapsto> room)"
  using assms
  by (auto simp: createRoomHandler_def Let_def http_Error_def json_reply_def
           split: if_splits sum.splits)

lemma createRoomHandler_decoded:
  assumes "Method r = MethodPost" and "decode_create (Body r) = Inr req"
  shows "createRoomHandler env r rooms =
     (json_reply (JSON_Room
        \<lparr>RoomID = generateRoomID (req_UserID req), OwnerUserID = req_UserID req,
         CreateTime = time_Now_Unix env,
         RoomType = normalizeRoomType (unicode_To_LowerCase env) (req_RoomType req),
         RTCType = chooseRTC (rand_Intn_10 env)\<rparr>),
      rooms(generateRoomID (req_UserID req) \<mapsto>
        \<lparr>RoomID = generateRoomID (req_UserID req), OwnerUserID = req_UserID req,
         CreateTime = time_Now_Unix env,
         RoomType = normalizeRoomType (unicode_To_LowerCase env) (req_RoomType req),
         RTCType = chooseRTC (rand_Intn_10 env)\<rparr>))"
  using assms by (simp add: createRoomHandler_def Let_def)

lemma destroyRoomHandler_decoded:
  assumes "Method r = MethodPost" and "decode_destroy (Body r) = Inr req"
  shows "destroyRoomHandler r rooms =
     (if rooms (req_RoomID req) = None
      then (http_Error ''room not found'' StatusNotFound, rooms)
      else (json_reply (JSON_Map [(''result'', ''ok'')]), rooms(req_RoomID req := None)))"
  using assms by (simp add: destroyRoomHandler_def)

lemma destroy_repeatedly_absent:
  assumes "Method r = MethodPost" and "decode_destroy (Body r) = Inr req"
    and "rooms (req_RoomID req) = None"
  shows "destroy_repeatedly r n rooms = rooms"
proof (induction n)
  case 0
  show ?case by (simp add: destroy_repeatedly_def)
next
  case (Suc n)
  then show ?case
    using assms by (simp add: destroy_repeatedly_def destroyRoomHandler_decoded)
qed

lemma destroy_example_decodes:
  "Method destroy_example = MethodPost \<and>
   decode_destroy (Body destroy_example) = Inr \<lparr>req_RoomID = ''rm_5''\<rparr>"
  by (simp add: destroy_example_def MethodPost_def decode_destroy_def zero_DestroyRoomRequest_def)

lemma create_example_result:
  "createRoomHandler env_example create_example rooms =
     (json_reply (JSON_Room room_example), rooms(''rm_5'' \<mapsto> room_example))"
  by (simp add: createRoomHandler_def env_example_def create_example_def MethodPost_def
      decode_create_def zero_CreateRoomRequest_def generateRoomID_def chooseRTC_def
      chooseRTC_arm_def normalizeRoomType_def ToLower_def isASCII_def toLowerASCII_def
      char_of_eq_iff Let_def room_example_def)

subsection \<open>The RTC backend selection\<close>

text \<open>
  C1. \<open>chooseRTC\<close> sends every draw from 0 to 5 to TRTC and every draw from 6 to 9 to
  Agora. Whenever \<open>createRoomHandler\<close> answers with a room, that room's \<open>RTCType\<close> is
  TRTC or Agora, and the same room is what the map holds under its id afterwards.
\<close>

theorem chooseRTC_six_to_four:
  "(0 \<le> u \<and> u \<le> 5 \<longrightarrow> chooseRTC u = RTC_TRTC) \<and>
   (6 \<le> v \<and> v \<le> 9 \<longrightarrow> chooseRTC v = RTC_AGORA) \<and>
   (createRoomHandler env r rooms = (resp, rooms') \<and> Payload resp = JSON_Room room \<longrightarrow>
      (RTCType room = RTC_TRTC \<or> RTCType room = RTC_AGORA) \<and>
      rooms' (RoomID room) = Some room)"
proof (intro conjI impI)
  assume "0 \<le> u \<and> u \<le> 5"
  then have "u = 0 \<or> u = 1 \<or> u = 2 \<or> u = 3 \<or> u = 4 \<or> u = 5" by arith
  then show "chooseRTC u = RTC_TRTC"
    by (simp add: chooseRTC_def chooseRTC_arm_def)
next
  assume "6 \<le> v \<and> v \<le> 9"
  then have "v = 6 \<or> v = 7 \<or> v = 8 \<or> v = 9" by arith
  then show "chooseRTC v = RTC_AGORA"
    by (auto simp: chooseRTC_def chooseRTC_arm_def)
next
  assume a: "createRoomHandler env r rooms = (resp, rooms') \<and> Payload resp = JSON_Room room"
  from createRoomHandler_returns_room [OF conjunct1 [OF a] conjunct2 [OF a]]
  have room: "RTCType room = chooseRTC (rand_Intn_10 env)"
    and st: "rooms' = rooms(RoomID room \<mapsto> room)"
    by blast+
  from room show "RTCType room = RTC_TRTC \<or> RTCType room = RTC_AGORA"
    using chooseRTC_cases [of "rand_Intn_10 env"] by simp
  from st show "rooms' (RoomID room) = Some room" by simp
qed

theorem chooseRTC_six_to_four_witness:
  "chooseRTC 3 = RTC_TRTC \<and> chooseRTC 7 = RTC_AGORA \<and>
   createRoomHandler env_example create_example Map.empty =
     (json_reply (JSON_Room room_example), [''rm_5'' \<mapsto> room_example]) \<and>
   RTCType room_example = RTC_AGORA \<and>
   [''rm_5'' \<mapsto> room_example] (RoomID room_example) = Some room_example"
  using chooseRTC_six_to_four [of 3 7 env_example create_example Map.empty
      "json_reply (JSON_Room room_example)" "[''rm_5'' \<mapsto> room_example]" room_example]
  by (simp add: create_example_result json_reply_def)
     (simp add: room_example_def)

text \<open>
  C9. For every value \<open>rand.Intn(10)\<close> can return, one of the two case lists of the
  switch matches: the default arm is not taken, and the function returns TRTC or Agora.
\<close>

theorem chooseRTC_default_unreachable:
  "Intn_10_result u \<Longrightarrow>
     chooseRTC_arm u \<noteq> Default \<and> (chooseRTC u = RTC_TRTC \<or> chooseRTC u = RTC_AGORA)"
proof -
  assume "Intn_10_result u"
  then have "u = 0 \<or> u = 1 \<or> u = 2 \<or> u = 3 \<or> u = 4 \<or> u = 5 \<or>
             u = 6 \<or> u = 7 \<or> u = 8 \<or> u = 9"
    unfolding Intn_10_result_def by arith
  then have "chooseRTC_arm u \<noteq> Default"
    by (auto simp: chooseRTC_arm_def)
  then show ?thesis using chooseRTC_cases [of u] by simp
qed

theorem chooseRTC_default_unreachable_witness:
  "Intn_10_result 9 \<and> chooseRTC_arm 9 = Case_6_to_9 \<and> chooseRTC_arm 9 \<noteq> Default \<and>
   chooseRTC 9 = RTC_AGORA"
proof -
  have h: "Intn_10_result 9" by (simp add: Intn_10_result_def)
  show ?thesis using h chooseRTC_default_unreachable [OF h]
    by (simp add: chooseRTC_arm_def chooseRTC_def)
qed

subsection \<open>The room id\<close>

text \<open>
  C7. \<open>generateRoomID\<close> puts \<open>rm_\<close> in front of the user id and changes nothing else.
  Every create request that decodes is answered with a room whose id is \<open>rm_\<close> followed
  by the request's user id, verbatim, and whose owner is that user id, and the room is
  stored under that id; so it is for a body with any \<open>userid\<close> and any \<open>room_type\<close>
  string. The request with user id \<open>5\<close> returns room id \<open>rm_5\<close> and owner \<open>5\<close>.
\<close>

theorem generateRoomID_prefix:
  "generateRoomID userid = ''rm_'' @ userid \<and>
   (Method r = MethodPost \<and> decode_create (Body r) = Inr req \<longrightarrow>
      (\<exists>room. createRoomHandler env r rooms
           = (json_reply (JSON_Room room), rooms(''rm_'' @ req_UserID req \<mapsto> room)) \<and>
         RoomID room = ''rm_'' @ req_UserID req \<and> OwnerUserID room = req_UserID req)) \<and>
   (\<exists>room. createRoomHandler env
        \<lparr>Method = ''POST'', Path = ''/room/create'',
         Body = Object [(''userid'', JString userid), (''room_type'', JString rt)]\<rparr> rooms
           = (json_reply (JSON_Room room), rooms(''rm_'' @ userid \<mapsto> room)) \<and>
      RoomID room = ''rm_'' @ userid \<and> OwnerUserID room = userid) \<and>
   (createRoomHandler env r rooms = (resp, rooms') \<and> Payload resp = JSON_Room room \<longrightarrow>
      (\<exists>req. decode_create (Body r) = Inr req \<and>
         RoomID room = ''rm_'' @ req_UserID req \<and> OwnerUserID room = req_UserID req)) \<and>
   fst (createRoomHandler env
        \<lparr>Method = ''POST'', Path = ''/room/create'',
         Body = Object [(''userid'', JString ''5''), (''room_type'', JString ''Live'')]\<rparr> rooms)
     = json_reply (JSON_Room
        \<lparr>RoomID = ''rm_5'', OwnerUserID = ''5'', CreateTime = time_Now_Unix env,
         RoomType = RoomLive, RTCType = chooseRTC (rand_Intn_10 env)\<rparr>)"
proof (intro conjI impI)
  show "generateRoomID userid = ''rm_'' @ userid" by (simp add: generateRoomID_def)
next
  assume a: "Method r = MethodPost \<and> decode_create (Body r) = Inr req"
  show "\<exists>room. createRoomHandler env r rooms
           = (json_reply (JSON_Room room), rooms(''rm_'' @ req_UserID req \<mapsto> room)) \<and>
         RoomID room = ''rm_'' @ req_UserID req \<and> OwnerUserID room = req_UserID req"
    by (intro exI [of _ "\<lparr>RoomID = generateRoomID (req_UserID req),
          OwnerUserID = req_UserID req, CreateTime = time_Now_Unix env,
          RoomType = normalizeRoomType (unicode_To_LowerCase env) (req_RoomType req),
          RTCType = chooseRTC (rand_Intn_10 env)\<rparr>"])
       (simp add: createRoomHandler_decoded [OF conjunct1 [OF a] conjunct2 [OF a]]
          generateRoomID_def)
next
  let ?r = "\<lparr>Method = ''POST'', Path = ''/room/create'',
         Body = Object [(''userid'', JString userid), (''room_type'', JString rt)]\<rparr>"
  have m: "Method ?r = MethodPost" by (simp add: MethodPost_def)
  have d: "decode_create (Body ?r) = Inr \<lparr>req_UserID = userid, req_RoomType = rt\<rparr>"
    by (simp add: decode_create_def zero_CreateRoomRequest_def)
  show "\<exists>room. createRoomHandler env ?r rooms
           = (json_reply (JSON_Room room), rooms(''rm_'' @ userid \<mapsto> room)) \<and>
      RoomID room = ''rm_'' @ userid \<and> OwnerUserID room = userid"
    by (intro exI [of _ "\<lparr>RoomID = generateRoomID userid,
          OwnerUserID = userid, CreateTime = time_Now_Unix env,
          RoomType = normalizeRoomType (unicode_To_LowerCase env) rt,
          RTCType = chooseRTC (rand_Intn_10 env)\<rparr>"])
       (simp add: createRoomHandler_decoded [OF m d] generateRoomID_def)
next
  assume a: "createRoomHandler env r rooms = (resp, rooms') \<and> Payload resp = JSON_Room room"
  from createRoomHandler_returns_room [OF conjunct1 [OF a] conjunct2 [OF a]]
  show "\<exists>req. decode_create (Body r) = Inr req \<and>
         RoomID room = ''rm_'' @ req_UserID req \<and> OwnerUserID room = req_UserID req"
    by (auto simp: generateRoomID_def)
next
  show "fst (createRoomHandler env
        \<lparr>Method = ''POST'', Path = ''/room/create'',
         Body = Object [(''userid'', JString ''5''), (''room_type'', JString ''Live'')]\<rparr> rooms)
     = json_reply (JSON_Room
        \<lparr>RoomID = ''rm_5'', OwnerUserID = ''5'', CreateTime = time_Now_Unix env,
         RoomType = RoomLive, RTCType = chooseRTC (rand_Intn_10 env)\<rparr>)"
    by (simp add: createRoomHandler_def MethodPost_def decode_create_def
        zero_CreateRoomRequest_def generateRoomID_def Let_def normalizeRoomType_def
        ToLower_def isASCII_def toLowerASCII_def char_of_eq_iff)
qed

theorem generateRoomID_prefix_witness:
  "generateRoomID ''7'' = ''rm_7'' \<and>
   Method create_seven = MethodPost \<and>
   decode_create (Body create_seven) = Inr \<lparr>req_UserID = ''7'', req_RoomType = ''audio''\<rparr> \<and>
   createRoomHandler env_seven create_seven three_rooms =
     (json_reply (JSON_Room room_seven), three_rooms(''rm_7'' \<mapsto> room_seven)) \<and>
   Payload (json_reply (JSON_Room room_seven)) = JSON_Room room_seven \<and>
   RoomID room_seven = ''rm_'' @ ''7'' \<and> OwnerUserID room_seven = ''7''"
proof -
  have m: "Method create_seven = MethodPost"
    by (simp add: create_seven_def MethodPost_def)
  have d: "decode_create (Body create_seven)
      = Inr \<lparr>req_UserID = ''7'', req_RoomType = ''audio''\<rparr>"
    by (simp add: create_seven_def decode_create_def zero_CreateRoomRequest_def)
  have c: "createRoomHandler env_seven create_seven three_rooms =
     (json_reply (JSON_Room room_seven), three_rooms(''rm_7'' \<mapsto> room_seven))"
    by (rule create_seven_result)
  have p: "Payload (json_reply (JSON_Room room_seven)) = JSON_Room room_seven"
    by (simp add: json_reply_def)
  from generateRoomID_prefix [of "''7''" create_seven
      "\<lparr>req_UserID = ''7'', req_RoomType = ''audio''\<rparr>" env_seven three_rooms "''audio''"
      "json_reply (JSON_Room room_seven)" "three_rooms(''rm_7'' \<mapsto> room_seven)" room_seven]
    m d c p
  have "generateRoomID ''7'' = ''rm_7'' \<and>
    RoomID room_seven = ''rm_'' @ ''7'' \<and> OwnerUserID room_seven = ''7''"
    by (simp add: room_seven_def)
  with m d c p show ?thesis by blast
qed

subsection \<open>Destroying a room\<close>

text \<open>
  C2. For a destroy request that decodes, whatever the map holds: the handler answers
  404 \<open>room not found\<close> exactly when the map has no entry under the requested id, and
  then leaves the map as it was; otherwise it answers with the fixed \<open>result: ok\<close> and
  the map afterwards is the map before without that one key. So a second destroy of a
  room that was present answers 404, and destroying an absent id answers 404 however
  often it is repeated.
\<close>

theorem destroy_not_found_iff_absent:
  assumes "Method r = MethodPost" and "decode_destroy (Body r) = Inr req"
  shows "destroyRoomHandler r rooms =
     (if rooms (req_RoomID req) = None
      then (http_Error ''room not found'' StatusNotFound, rooms)
      else (json_reply (JSON_Map [(''result'', ''ok'')]), rooms(req_RoomID req := None))) \<and>
   (StatusCode (fst (destroyRoomHandler r rooms)) = StatusNotFound
      \<longleftrightarrow> rooms (req_RoomID req) = None) \<and>
   (rooms (req_RoomID req) \<noteq> None \<longrightarrow>
      fst (destroyRoomHandler r rooms) = json_reply (JSON_Map [(''result'', ''ok'')]) \<and>
      fst (destroyRoomHandler r (snd (destroyRoomHandler r rooms)))
        = http_Error ''room not found'' StatusNotFound) \<and>
   (rooms (req_RoomID req) = None \<longrightarrow>
      fst (destroyRoomHandler r (destroy_repeatedly r n rooms))
        = http_Error ''room not found'' StatusNotFound \<and>
      destroy_repeatedly r n rooms = rooms)"
proof (intro conjI impI)
  show "destroyRoomHandler r rooms =
     (if rooms (req_RoomID req) = None
      then (http_Error ''room not found'' StatusNotFound, rooms)
      else (json_reply (JSON_Map [(''result'', ''ok'')]), rooms(req_RoomID req := None)))"
    by (rule destroyRoomHandler_decoded [OF assms])
next
  show "StatusCode (fst (destroyRoomHandler r rooms)) = StatusNotFound
      \<longleftrightarrow> rooms (req_RoomID req) = None"
    by (simp add: destroyRoomHandler_decoded [OF assms] http_Error_def json_reply_def
        StatusOK_def StatusNotFound_def)
next
  assume "rooms (req_RoomID req) \<noteq> None"
  then show "fst (destroyRoomHandler r rooms) = json_reply (JSON_Map [(''result'', ''ok'')])"
    by (auto simp: destroyRoomHandler_decoded [OF assms])
next
  assume "rooms (req_RoomID req) \<noteq> None"
  then show "fst (destroyRoomHandler r (snd (destroyRoomHandler r rooms)))
        = http_Error ''room not found'' StatusNotFound"
    by (auto simp: destroyRoomHandler_decoded [OF assms])
next
  assume a: "rooms (req_RoomID req) = None"
  have "destroy_repeatedly r n rooms = rooms"
    using assms a by (rule destroy_repeatedly_absent)
  with a show "fst (destroyRoomHandler r (destroy_repeatedly r n rooms))
        = http_Error ''room not found'' StatusNotFound"
    by (simp add: destroyRoomHandler_decoded [OF assms])
next
  assume a: "rooms (req_RoomID req) = None"
  show "destroy_repeatedly r n rooms = rooms"
    using assms a by (rule destroy_repeatedly_absent)
qed

theorem destroy_not_found_iff_absent_witness:
  "Method destroy_example = MethodPost \<and>
   decode_destroy (Body destroy_example) = Inr \<lparr>req_RoomID = ''rm_5''\<rparr> \<and>
   destroyRoomHandler destroy_example [''rm_5'' \<mapsto> room_example]
     = (json_reply (JSON_Map [(''result'', ''ok'')]), Map.empty) \<and>
   destroyRoomHandler destroy_example Map.empty
     = (http_Error ''room not found'' StatusNotFound, Map.empty) \<and>
   fst (destroyRoomHandler destroy_example
          (snd (destroyRoomHandler destroy_example [''rm_5'' \<mapsto> room_example])))
     = http_Error ''room not found'' StatusNotFound \<and>
   destroy_repeatedly destroy_example 3 Map.empty = Map.empty"
  using destroy_not_found_iff_absent [of destroy_example "\<lparr>req_RoomID = ''rm_5''\<rparr>"
      "[''rm_5'' \<mapsto> room_example]" 0]
    destroy_not_found_iff_absent [of destroy_example "\<lparr>req_RoomID = ''rm_5''\<rparr>" Map.empty 3]
    destroy_example_decodes
  by simp

subsection \<open>The room type\<close>

lemma create_dotted_decodes:
  "Method create_dotted = MethodPost \<and>
   decode_create (Body create_dotted) = Inr \<lparr>req_UserID = ''5'', req_RoomType = dotted_I_audio\<rparr>"
  by (simp add: create_dotted_def MethodPost_def decode_create_def zero_CreateRoomRequest_def)

lemma dotted_I_audio_lower: "ToLower CaseRanges_0130 dotted_I_audio = ''audio''"
  by (simp add: ToLower_def isASCII_def dotted_I_audio_def strings_Map_def DecodeRune_def
      unicode_ToLower_def CaseRanges_0130_def EncodeRune_def char_of_eq_iff)

lemma create_dotted_result:
  "createRoomHandler env_dotted create_dotted rooms =
     (json_reply (JSON_Room room_dotted), rooms(''rm_5'' \<mapsto> room_dotted))"
  by (simp add: createRoomHandler_decoded [OF conjunct1 [OF create_dotted_decodes]
        conjunct2 [OF create_dotted_decodes]]
      env_dotted_def generateRoomID_def chooseRTC_def chooseRTC_arm_def
      normalizeRoomType_def dotted_I_audio_lower room_dotted_def)

lemma dotted_I_audio_no_spelling: "\<not> audio_spelling dotted_I_audio"
  by (simp add: audio_spelling_def dotted_I_audio_def)

text \<open>
  C3 does not hold of every string: the string made of \<open>aud\<close>, the code point U+0130
  and \<open>o\<close> is no upper or lower case spelling of \<open>audio\<close>, yet a create with it as room
  type is answered with an Audio room, not a Live one.
\<close>

theorem room_type_U0130_counterexample:
  "decode_create (Body create_dotted) = Inr \<lparr>req_UserID = ''5'', req_RoomType = dotted_I_audio\<rparr> \<and>
   \<not> audio_spelling dotted_I_audio \<and>
   createRoomHandler env_dotted create_dotted Map.empty
     = (json_reply (JSON_Room room_dotted), [''rm_5'' \<mapsto> room_dotted]) \<and>
   RoomType room_dotted = RoomAudio \<and> RoomType room_dotted \<noteq> RoomLive"
  by (simp add: create_dotted_decodes dotted_I_audio_no_spelling create_dotted_result)
     (simp add: room_dotted_def RoomAudio_def RoomLive_def)

text \<open>
  C3, in the form that holds. Every create request that decodes is answered with a room whose type
  is Audio when the code points of the request's \<open>room_type\<close> string, each mapped to
  lower case as \<open>strings.ToLower\<close> does, are those of \<open>audio\<close>, and Live for every other
  string; there is no third outcome and no error. For a string of bytes below \<open>0x80\<close>
  that is Audio exactly for the upper and lower case spellings of \<open>audio\<close>: every such
  spelling gives Audio, \<open>AUDIO\<close> among them, and the empty string and \<open>foo\<close> give Live.
\<close>

theorem createRoomHandler_room_type:
  assumes "Method r = MethodPost" and "decode_create (Body r) = Inr req"
  shows "\<exists>room. createRoomHandler env r rooms
        = (json_reply (JSON_Room room), rooms(RoomID room \<mapsto> room)) \<and>
     RoomType room =
       (if lower_runes (unicode_To_LowerCase env) (req_RoomType req) = audio_runes
        then RoomAudio else RoomLive) \<and>
     (isASCII (req_RoomType req) \<longrightarrow>
        RoomType room = (if audio_spelling (req_RoomType req) then RoomAudio else RoomLive)) \<and>
     (audio_spelling (req_RoomType req) \<longrightarrow> RoomType room = RoomAudio) \<and>
     (req_RoomType req = ''AUDIO'' \<longrightarrow> RoomType room = RoomAudio) \<and>
     (req_RoomType req = [] \<or> req_RoomType req = ''foo'' \<longrightarrow> RoomType room = RoomLive) \<and>
     RoomAudio \<noteq> RoomLive"
proof -
  let ?rt = "normalizeRoomType (unicode_To_LowerCase env) (req_RoomType req)"
  let ?room = "\<lparr>RoomID = generateRoomID (req_UserID req), OwnerUserID = req_UserID req,
         CreateTime = time_Now_Unix env, RoomType = ?rt,
         RTCType = chooseRTC (rand_Intn_10 env)\<rparr>"
  have res: "createRoomHandler env r rooms
        = (json_reply (JSON_Room ?room), rooms(RoomID ?room \<mapsto> ?room))"
    by (simp add: createRoomHandler_decoded [OF assms])
  have runes: "?rt = (if lower_runes (unicode_To_LowerCase env) (req_RoomType req) = audio_runes
        then RoomAudio else RoomLive)"
    by (simp add: normalizeRoomType_def ToLower_audio_iff)
  have ascii: "?rt = (if audio_spelling (req_RoomType req) then RoomAudio else RoomLive)"
    if "isASCII (req_RoomType req)"
    using that by (rule normalizeRoomType_ascii)
  have spelled: "?rt = RoomAudio" if "audio_spelling (req_RoomType req)"
    using that ascii [OF audio_spelling_isASCII [OF that]] by simp
  have upper: "?rt = RoomAudio" if "req_RoomType req = ''AUDIO''"
    using that by (simp add: normalizeRoomType_def ToLower_def isASCII_def toLowerASCII_def
        char_of_eq_iff)
  have other: "?rt = RoomLive" if "req_RoomType req = [] \<or> req_RoomType req = ''foo''"
    using that by (auto simp: normalizeRoomType_def ToLower_def isASCII_def toLowerASCII_def)
  have ne: "RoomAudio \<noteq> RoomLive" by (simp add: RoomAudio_def RoomLive_def)
  from res runes ascii spelled upper other ne show ?thesis
    by (intro exI [of _ ?room]) simp
qed

theorem createRoomHandler_room_type_witness:
  "Method create_again = MethodPost \<and>
   decode_create (Body create_again) = Inr \<lparr>req_UserID = ''5'', req_RoomType = ''AUDIO''\<rparr> \<and>
   isASCII ''AUDIO'' \<and> audio_spelling ''AUDIO'' \<and>
   createRoomHandler env_again create_again three_rooms
     = (json_reply (JSON_Room room_again), three_rooms(''rm_5'' \<mapsto> room_again)) \<and>
   RoomType room_again = RoomAudio \<and>
   Method create_example = MethodPost \<and>
   decode_create (Body create_example) = Inr \<lparr>req_UserID = ''5'', req_RoomType = ''Live''\<rparr> \<and>
   isASCII ''Live'' \<and> \<not> audio_spelling ''Live'' \<and>
   createRoomHandler env_example create_example three_rooms
     = (json_reply (JSON_Room room_example), three_rooms(''rm_5'' \<mapsto> room_example)) \<and>
   RoomType room_example = RoomLive"
proof -
  have a1: "Method create_again = MethodPost"
    and a2: "decode_create (Body create_again)
        = Inr \<lparr>req_UserID = ''5'', req_RoomType = ''AUDIO''\<rparr>"
    using create_again_decodes by blast+
  have e1: "Method create_example = MethodPost"
    and e2: "decode_create (Body create_example)
        = Inr \<lparr>req_UserID = ''5'', req_RoomType = ''Live''\<rparr>"
    using create_example_decodes by blast+
  have i1: "isASCII ''AUDIO''" and i2: "isASCII ''Live''"
    by (simp_all add: isASCII_def)
  have s1: "audio_spelling ''AUDIO''" and s2: "\<not> audio_spelling ''Live''"
    by (simp_all add: audio_spelling_def)
  have c1: "createRoomHandler env_again create_again three_rooms
     = (json_reply (JSON_Room room_again), three_rooms(''rm_5'' \<mapsto> room_again))"
    by (rule create_again_result)
  have c2: "createRoomHandler env_example create_example three_rooms
     = (json_reply (JSON_Room room_example), three_rooms(''rm_5'' \<mapsto> room_example))"
    by (rule create_example_result)
  from createRoomHandler_room_type [OF a1 a2, of env_again three_rooms] c1 i1 s1
  have t1: "RoomType room_again = RoomAudio"
    by (auto simp: json_reply_def)
  from createRoomHandler_room_type [OF e1 e2, of env_example three_rooms] c2 i2 s2
  have t2: "RoomType room_example = RoomLive"
    by (auto simp: json_reply_def)
  show ?thesis by (intro conjI a1 a2 i1 s1 c1 t1 e1 e2 i2 s2 c2 t2)
qed

subsection \<open>Listing the rooms\<close>

text \<open>Inserting keeps the elements and the descending order; so does the whole sort.\<close>

lemma mset_insertLess: "mset (insertLess lessf ys x) = add_mset x (mset ys)"
proof -
  have "mset (dropWhile (lessf x) (rev ys)) + mset (takeWhile (lessf x) (rev ys))
      = mset (takeWhile (lessf x) (rev ys) @ dropWhile (lessf x) (rev ys))"
    by (subst add.commute) (rule mset_append [symmetric])
  also have "\<dots> = mset ys"
    by (simp only: takeWhile_dropWhile_id mset_rev)
  finally show ?thesis
    by (simp add: insertLess_def)
qed

lemma mset_foldl_insertLess:
  "mset (foldl (insertLess lessf) acc xs) = mset acc + mset xs"
  by (induction xs arbitrary: acc) (simp_all add: mset_insertLess)

lemma mset_sort_Slice: "mset (sort_Slice lessf xs) = mset xs"
  by (simp add: sort_Slice_def mset_foldl_insertLess)

lemma dropWhile_sorted_ge:
  fixes key :: "'a \<Rightarrow> int"
  assumes "sorted_wrt (\<lambda>a b. key a \<le> key b) zs"
    and "d \<in> set (dropWhile (\<lambda>y. key y < k) zs)"
  shows "k \<le> key d"
  using assms
proof (induction zs)
  case Nil
  then show ?case by simp
next
  case (Cons z zs)
  then show ?case by (auto split: if_splits)
qed

lemma sorted_insertLess:
  fixes key :: "'a \<Rightarrow> int"
  assumes "sorted_wrt (\<lambda>a b. key b \<le> key a) ys"
  shows "sorted_wrt (\<lambda>a b. key b \<le> key a) (insertLess (\<lambda>a b. key a > key b) ys x)"
proof -
  let ?P = "\<lambda>y. key y < key x"
  let ?zs = "rev ys"
  have zs: "sorted_wrt (\<lambda>a b. key a \<le> key b) ?zs"
    using assms by (simp add: sorted_wrt_rev)
  have split: "takeWhile ?P ?zs @ dropWhile ?P ?zs = ?zs" by simp
  from zs have td: "sorted_wrt (\<lambda>a b. key a \<le> key b) (takeWhile ?P ?zs @ dropWhile ?P ?zs)"
    by (simp only: split)
  have ge: "\<And>d. d \<in> set (dropWhile ?P ?zs) \<Longrightarrow> key x \<le> key d"
    using dropWhile_sorted_ge [OF zs] by blast
  have lt: "\<And>t. t \<in> set (takeWhile ?P ?zs) \<Longrightarrow> key t < key x"
    by (auto dest: set_takeWhileD)
  have mid: "\<And>t. t \<in> set (takeWhile ?P ?zs) \<Longrightarrow> key t \<le> key x"
    using lt by force
  have cross: "\<And>d t. d \<in> set (dropWhile ?P ?zs) \<Longrightarrow> t \<in> set (takeWhile ?P ?zs)
      \<Longrightarrow> key t \<le> key d"
    using ge mid by force
  from td have "sorted_wrt (\<lambda>a b. key a \<le> key b) (takeWhile ?P ?zs)"
    and "sorted_wrt (\<lambda>a b. key a \<le> key b) (dropWhile ?P ?zs)"
    by (simp_all add: sorted_wrt_append)
  then show ?thesis
    unfolding insertLess_def
    by (simp add: sorted_wrt_append sorted_wrt_rev ge mid cross)
qed

lemma sorted_foldl_insertLess:
  fixes key :: "'a \<Rightarrow> int"
  assumes "sorted_wrt (\<lambda>a b. key b \<le> key a) acc"
  shows "sorted_wrt (\<lambda>a b. key b \<le> key a) (foldl (insertLess (\<lambda>a b. key a > key b)) acc xs)"
  using assms by (induction xs arbitrary: acc) (simp_all add: sorted_insertLess)

lemma sorted_sort_Slice_CreateTime:
  "sorted_wrt (\<lambda>a b. sint (CreateTime b) \<le> sint (CreateTime a)) (sort_Slice less_CreateTime xs)"
proof -
  have "less_CreateTime = (\<lambda>a b. sint (CreateTime a) > sint (CreateTime b))"
    by (simp add: less_CreateTime_def fun_eq_iff)
  then show ?thesis
    using sorted_foldl_insertLess [of "\<lambda>r. sint (CreateTime r)" "[]" xs]
    by (simp add: sort_Slice_def)
qed

lemma snapshot_range:
  assumes "range_visits ks rooms"
  shows "snapshot ks rooms = map (\<lambda>k. the (rooms k)) ks"
proof -
  from assms have "\<forall>k \<in> set ks. rooms k \<noteq> None"
    by (auto simp: range_visits_def)
  then have "filter (\<lambda>k. rooms k \<noteq> None) ks = ks"
    by (simp add: filter_id_conv)
  then show ?thesis
    by (simp add: snapshot_def List.map_filter_def comp_def)
qed

lemma mset_snapshot:
  assumes "range_visits ks rooms"
  shows "mset (snapshot ks rooms) = image_mset (\<lambda>k. the (rooms k)) (mset_set (dom rooms))"
proof -
  from assms have "mset ks = mset_set (dom rooms)"
    by (metis range_visits_def mset_set_set)
  then show ?thesis
    by (simp add: snapshot_range [OF assms])
qed

lemma ran_image_dom: "ran m = (\<lambda>k. the (m k)) ` dom m"
  by (force simp: ran_def dom_def image_iff)

lemma set_snapshot:
  assumes "range_visits ks rooms"
  shows "set (snapshot ks rooms) = ran rooms"
  using assms by (simp add: snapshot_range [OF assms] range_visits_def ran_image_dom)

lemma length_snapshot:
  assumes "range_visits ks rooms"
  shows "length (snapshot ks rooms) = card (dom rooms)"
  using assms by (simp add: snapshot_range [OF assms] range_visits_def distinct_card [symmetric])

lemma three_sorted_desc:
  fixes key :: "'a \<Rightarrow> int"
  assumes "set xs = {r1, r2, r3}" and "length xs = 3"
    and "sorted_wrt (\<lambda>a b. key b \<le> key a) xs"
    and "key r1 < key r2" and "key r2 < key r3"
  shows "xs = [r3, r2, r1]"
proof -
  from assms(2) obtain a b c where xs: "xs = [a, b, c]"
    by (auto simp: length_Suc_conv numeral_3_eq_3)
  have "r1 \<noteq> r2" "r2 \<noteq> r3" "r1 \<noteq> r3" using assms(4,5) by auto
  then have "card (set xs) = 3" using assms(1) by simp
  with assms(2) have "distinct xs" by (simp add: card_distinct)
  with xs have d: "a \<noteq> b" "a \<noteq> c" "b \<noteq> c" by auto
  from xs assms(1) have m: "a \<in> {r1, r2, r3}" "b \<in> {r1, r2, r3}" "c \<in> {r1, r2, r3}"
    by auto
  from xs assms(3) have o: "key b \<le> key a" "key c \<le> key b" by auto
  from d m o assms(4,5) have "a = r3 \<and> b = r2 \<and> c = r1" by auto
  with xs show ?thesis by simp
qed

lemma listRoomsHandler_GET:
  assumes "Method r = MethodGet"
  shows "listRoomsHandler env r rooms =
     (json_reply (JSON_List (sort_Slice less_CreateTime (snapshot (range_rooms env) rooms))),
      rooms)"
  using assms by (simp add: listRoomsHandler_def)

lemma three_rooms_range: "range_visits (range_rooms env_list) three_rooms"
  by (simp add: range_visits_def env_list_def three_rooms_def insert_commute)

text \<open>
  C4. A list request answers with all rooms of the map, newest first: whatever order
  the \<open>range\<close> loop visits the keys in, the answer holds each stored room exactly once
  and nothing else, every element's \<open>CreateTime\<close> is at least that of the element after
  it (and of every later element), and the map is left as it was. When the map holds
  three rooms created at times \<open>t1 < t2 < t3\<close>, the answer is those rooms in the order
  \<open>t3\<close>, \<open>t2\<close>, \<open>t1\<close>.
\<close>

theorem listRoomsHandler_newest_first:
  assumes "Method r = MethodGet" and "range_visits (range_rooms env) rooms"
  shows "\<exists>list. listRoomsHandler env r rooms = (json_reply (JSON_List list), rooms) \<and>
     mset list = image_mset (\<lambda>k. the (rooms k)) (mset_set (dom rooms)) \<and>
     set list = ran rooms \<and>
     length list = card (dom rooms) \<and>
     sorted_wrt (\<lambda>a b. sint (CreateTime b) \<le> sint (CreateTime a)) list \<and>
     (\<forall>i. Suc i < length list \<longrightarrow>
        sint (CreateTime (list ! Suc i)) \<le> sint (CreateTime (list ! i))) \<and>
     (\<forall>k1 k2 k3 r1 r2 r3.
        dom rooms = {k1, k2, k3} \<and>
        rooms k1 = Some r1 \<and> rooms k2 = Some r2 \<and> rooms k3 = Some r3 \<and>
        sint (CreateTime r1) < sint (CreateTime r2) \<and>
        sint (CreateTime r2) < sint (CreateTime r3)
        \<longrightarrow> list = [r3, r2, r1])"
proof -
  let ?snap = "snapshot (range_rooms env) rooms"
  let ?list = "sort_Slice less_CreateTime ?snap"
  note rv = assms(2)
  have reply: "listRoomsHandler env r rooms = (json_reply (JSON_List ?list), rooms)"
    by (rule listRoomsHandler_GET [OF assms(1)])
  have ms: "mset ?list = image_mset (\<lambda>k. the (rooms k)) (mset_set (dom rooms))"
    by (simp add: mset_sort_Slice mset_snapshot [OF rv])
  have "set ?list = set ?snap"
    by (rule mset_eq_setD) (rule mset_sort_Slice)
  then have st: "set ?list = ran rooms"
    by (simp add: set_snapshot [OF rv])
  have "length ?list = length ?snap"
    by (rule mset_eq_length) (rule mset_sort_Slice)
  then have len: "length ?list = card (dom rooms)"
    by (simp add: length_snapshot [OF rv])
  have srt: "sorted_wrt (\<lambda>a b. sint (CreateTime b) \<le> sint (CreateTime a)) ?list"
    by (rule sorted_sort_Slice_CreateTime)
  then have adj: "\<forall>i. Suc i < length ?list \<longrightarrow>
        sint (CreateTime (?list ! Suc i)) \<le> sint (CreateTime (?list ! i))"
    by (simp add: sorted_wrt_iff_nth_less)
  have three: "?list = [r3, r2, r1]"
    if h: "dom rooms = {k1, k2, k3} \<and>
        rooms k1 = Some r1 \<and> rooms k2 = Some r2 \<and> rooms k3 = Some r3 \<and>
        sint (CreateTime r1) < sint (CreateTime r2) \<and>
        sint (CreateTime r2) < sint (CreateTime r3)"
    for k1 k2 k3 r1 r2 r3
  proof -
    from h have ne: "k1 \<noteq> k2" "k2 \<noteq> k3" "k1 \<noteq> k3" by auto
    from h have "ran rooms = {r1, r2, r3}"
      by (simp add: ran_image_dom)
    with st have s3: "set ?list = {r1, r2, r3}" by simp
    from h ne len have l3: "length ?list = 3" by simp
    from h show ?thesis
      using three_sorted_desc [of ?list r1 r2 r3 "\<lambda>r. sint (CreateTime r)", OF s3 l3 srt]
      by simp
  qed
  from reply ms st len srt adj three show ?thesis by blast
qed

theorem listRoomsHandler_newest_first_witness:
  "Method list_example = MethodGet \<and>
   range_visits (range_rooms env_list) three_rooms \<and>
   dom three_rooms = {''rm_1'', ''rm_2'', ''rm_3''} \<and>
   sint (CreateTime room_early) < sint (CreateTime room_middle) \<and>
   sint (CreateTime room_middle) < sint (CreateTime room_late) \<and>
   listRoomsHandler env_list list_example three_rooms =
     (json_reply (JSON_List [room_late, room_middle, room_early]), three_rooms)"
proof -
  have g: "Method list_example = MethodGet"
    by (simp add: list_example_def MethodGet_def)
  have d: "dom three_rooms = {''rm_1'', ''rm_2'', ''rm_3''}"
    by (simp add: three_rooms_def insert_commute)
  have l: "three_rooms ''rm_1'' = Some room_early" "three_rooms ''rm_2'' = Some room_middle"
    "three_rooms ''rm_3'' = Some room_late"
    by (simp_all add: three_rooms_def)
  have t: "sint (CreateTime room_early) < sint (CreateTime room_middle)"
    "sint (CreateTime room_middle) < sint (CreateTime room_late)"
    by (simp_all add: room_early_def room_middle_def room_late_def)
  from listRoomsHandler_newest_first [OF g three_rooms_range]
  obtain list where r: "listRoomsHandler env_list list_example three_rooms
      = (json_reply (JSON_List list), three_rooms)"
    and c: "\<forall>k1 k2 k3 r1 r2 r3.
        dom three_rooms = {k1, k2, k3} \<and>
        three_rooms k1 = Some r1 \<and> three_rooms k2 = Some r2 \<and> three_rooms k3 = Some r3 \<and>
        sint (CreateTime r1) < sint (CreateTime r2) \<and>
        sint (CreateTime r2) < sint (CreateTime r3)
        \<longrightarrow> list = [r3, r2, r1]"
    by blast
  from c [rule_format, of "''rm_1''" "''rm_2''" "''rm_3''" room_early room_middle room_late]
    d l t
  have "list = [room_late, room_middle, room_early]" by simp
  with r g d t three_rooms_range show ?thesis by simp
qed

subsection \<open>Creating twice for the same user\<close>

lemma distinct_count_list: "distinct xs \<Longrightarrow> x \<in> set xs \<Longrightarrow> count_list xs x = 1"
  by (induction xs) auto

text \<open>
  C5. The insert of \<open>createRoomHandler\<close> is an unconditional upsert. Two creates with the
  same user id, one after the other, both succeed and return rooms with the same id;
  the second adds no key to the map, the key is met once by a \<open>range\<close> over the map,
  and the entry under it is the second room, whose creation time, room type and RTC
  type are those of the second create.
\<close>

theorem create_overwrites_same_userid:
  assumes "Method r1 = MethodPost" and "decode_create (Body r1) = Inr q1"
    and "Method r2 = MethodPost" and "decode_create (Body r2) = Inr q2"
    and "req_UserID q1 = req_UserID q2"
    and "createRoomHandler env1 r1 rooms = (resp1, s1)"
    and "createRoomHandler env2 r2 s1 = (resp2, s2)"
  shows "\<exists>room1 room2.
     resp1 = json_reply (JSON_Room room1) \<and> resp2 = json_reply (JSON_Room room2) \<and>
     RoomID room1 = generateRoomID (req_UserID q1) \<and>
     RoomID room2 = generateRoomID (req_UserID q2) \<and>
     RoomID room1 = RoomID room2 \<and>
     s1 = rooms(RoomID room1 \<mapsto> room1) \<and>
     s2 = rooms(RoomID room2 \<mapsto> room2) \<and>
     s2 (RoomID room2) = Some room2 \<and>
     dom s2 = dom s1 \<and>
     (\<forall>ks. range_visits ks s2 \<longrightarrow> count_list ks (RoomID room2) = 1) \<and>
     CreateTime room2 = time_Now_Unix env2 \<and>
     RoomType room2 = normalizeRoomType (unicode_To_LowerCase env2) (req_RoomType q2) \<and>
     RTCType room2 = chooseRTC (rand_Intn_10 env2)"
proof -
  let ?id = "generateRoomID (req_UserID q2)"
  let ?room1 = "\<lparr>RoomID = ?id, OwnerUserID = req_UserID q1,
         CreateTime = time_Now_Unix env1,
         RoomType = normalizeRoomType (unicode_To_LowerCase env1) (req_RoomType q1),
         RTCType = chooseRTC (rand_Intn_10 env1)\<rparr>"
  let ?room2 = "\<lparr>RoomID = ?id, OwnerUserID = req_UserID q2,
         CreateTime = time_Now_Unix env2,
         RoomType = normalizeRoomType (unicode_To_LowerCase env2) (req_RoomType q2),
         RTCType = chooseRTC (rand_Intn_10 env2)\<rparr>"
  from assms(5,6) have first: "resp1 = json_reply (JSON_Room ?room1)" "s1 = rooms(?id \<mapsto> ?room1)"
    by (simp_all add: createRoomHandler_decoded [OF assms(1,2)])
  from assms(7) have second: "resp2 = json_reply (JSON_Room ?room2)" "s2 = s1(?id \<mapsto> ?room2)"
    by (simp_all add: createRoomHandler_decoded [OF assms(3,4)])
  from first second have s2: "s2 = rooms(?id \<mapsto> ?room2)" by simp
  from first second have doms: "dom s2 = dom s1" by auto
  have once: "count_list ks ?id = 1" if "range_visits ks s2" for ks
  proof -
    from that s2 have "distinct ks" and "?id \<in> set ks"
      by (simp_all add: range_visits_def)
    then show ?thesis by (rule distinct_count_list)
  qed
  from first s2 second(1) doms once assms(5) show ?thesis
    by (intro exI [of _ ?room1] exI [of _ ?room2]) simp
qed

theorem create_overwrites_same_userid_witness:
  "Method create_example = MethodPost \<and>
   decode_create (Body create_example) = Inr \<lparr>req_UserID = ''5'', req_RoomType = ''Live''\<rparr> \<and>
   Method create_again = MethodPost \<and>
   decode_create (Body create_again) = Inr \<lparr>req_UserID = ''5'', req_RoomType = ''AUDIO''\<rparr> \<and>
   createRoomHandler env_example create_example Map.empty
     = (json_reply (JSON_Room room_example), [''rm_5'' \<mapsto> room_example]) \<and>
   createRoomHandler env_again create_again [''rm_5'' \<mapsto> room_example]
     = (json_reply (JSON_Room room_again), [''rm_5'' \<mapsto> room_again]) \<and>
   range_visits [''rm_5''] [''rm_5'' \<mapsto> room_again] \<and>
   RoomID room_example = RoomID room_again \<and>
   count_list [''rm_5''] (RoomID room_again) = 1 \<and>
   CreateTime room_again = time_Now_Unix env_again"
proof -
  have rv: "range_visits [''rm_5''] [''rm_5'' \<mapsto> room_again]"
    by (simp add: range_visits_def)
  have c1: "createRoomHandler env_example create_example Map.empty
     = (json_reply (JSON_Room room_example), [''rm_5'' \<mapsto> room_example])"
    by (simp add: create_example_result)
  have c2: "createRoomHandler env_again create_again [''rm_5'' \<mapsto> room_example]
     = (json_reply (JSON_Room room_again), [''rm_5'' \<mapsto> room_again])"
    by (simp add: create_again_result)
  have same: "req_UserID \<lparr>req_UserID = ''5'', req_RoomType = ''Live''\<rparr>
      = req_UserID \<lparr>req_UserID = ''5'', req_RoomType = ''AUDIO''\<rparr>"
    by simp
  from create_overwrites_same_userid [OF conjunct1 [OF create_example_decodes]
      conjunct2 [OF create_example_decodes] conjunct1 [OF create_again_decodes]
      conjunct2 [OF create_again_decodes] same c1 c2]
  obtain room1 room2
    where e1: "json_reply (JSON_Room room_example) = json_reply (JSON_Room room1)"
      and e2: "json_reply (JSON_Room room_again) = json_reply (JSON_Room room2)"
      and i: "RoomID room1 = RoomID room2"
      and o: "\<forall>ks. range_visits ks [''rm_5'' \<mapsto> room_again]
                \<longrightarrow> count_list ks (RoomID room2) = 1"
      and t: "CreateTime room2 = time_Now_Unix env_again"
    by blast
  from e1 e2 have "room1 = room_example" "room2 = room_again"
    by (simp_all add: json_reply_def)
  with i o t rv have "RoomID room_example = RoomID room_again \<and>
      count_list [''rm_5''] (RoomID room_again) = 1 \<and>
      CreateTime room_again = time_Now_Unix env_again"
    by blast
  with rv c1 c2 create_example_decodes create_again_decodes show ?thesis by simp
qed

subsection \<open>Create, then list\<close>

text \<open>Requests that are no colliding create and no destroy of an id leave its entry alone.\<close>

lemma serveMux_leaves_alone:
  assumes "\<not> colliding_create rid q" and "\<not> destroys rid q"
  shows "snd (serveMux env q rooms) rid = rooms rid"
proof -
  have c: "snd (createRoomHandler env q rooms) rid = rooms rid" if "Path q = ''/room/create''"
    using that assms(1)
    by (auto simp: colliding_create_def createRoomHandler_def Let_def split: sum.splits)
  have d: "snd (destroyRoomHandler q rooms) rid = rooms rid" if "Path q = ''/room/destroy''"
    using that assms(2)
    by (auto simp: destroys_def destroyRoomHandler_def split: sum.splits)
  have l: "snd (listRoomsHandler env q rooms) = rooms"
    by (simp add: listRoomsHandler_def Let_def)
  from c d l show ?thesis
    by (simp add: serveMux_def)
qed

lemma run_leaves_alone:
  assumes "leaves_alone rid rs"
  shows "run rs rooms rid = rooms rid"
  using assms
proof (induction rs arbitrary: rooms)
  case Nil
  show ?case by simp
next
  case (Cons a rs)
  obtain env q where a: "a = (env, q)" by (cases a)
  from Cons.prems a have here: "\<not> colliding_create rid q" "\<not> destroys rid q"
    and rest: "leaves_alone rid rs"
    by (simp_all add: leaves_alone_def)
  have "run (a # rs) rooms rid = run rs (snd (serveMux env q rooms)) rid"
    by (simp add: a)
  also have "\<dots> = snd (serveMux env q rooms) rid"
    by (rule Cons.IH [OF rest])
  also have "\<dots> = rooms rid"
    by (rule serveMux_leaves_alone [OF here])
  finally show ?case .
qed

lemma between_example_leaves_alone: "leaves_alone ''rm_5'' between_example"
  by (simp add: leaves_alone_def between_example_def colliding_create_def destroys_def
      create_seven_def destroy_early_def destroy_null_def unknown_path_def
      decode_create_def decode_destroy_def zero_CreateRoomRequest_def
      zero_DestroyRoomRequest_def generateRoomID_def)

lemma between_example_result:
  "run between_example (three_rooms(''rm_5'' \<mapsto> room_example)) = later_rooms"
proof -
  let ?s0 = "three_rooms(''rm_5'' \<mapsto> room_example)"
  let ?s1 = "?s0(''rm_7'' \<mapsto> room_seven)"
  let ?s2 = "?s1(''rm_1'' := None)"
  have one: "snd (serveMux env_seven create_seven ?s0) = ?s1"
    by (simp add: serveMux_def create_seven_result) (simp add: create_seven_def)
  have "?s1 ''rm_1'' = Some room_early"
    by (simp add: three_rooms_def)
  then have two: "snd (serveMux env_example destroy_early ?s1) = ?s2"
    by (simp add: serveMux_def destroyRoomHandler_def destroy_early_def MethodPost_def
        decode_destroy_def zero_DestroyRoomRequest_def)
  have "?s2 [] = None"
    by (simp add: three_rooms_def)
  then have three: "snd (serveMux env_example destroy_null ?s2) = ?s2"
    by (simp add: serveMux_def destroyRoomHandler_def destroy_null_def MethodPost_def
        decode_destroy_def zero_DestroyRoomRequest_def)
  have four: "snd (serveMux env_example unknown_path ?s2) = ?s2"
    by (simp add: serveMux_def unknown_path_def)
  have "?s2 = later_rooms"
    by (rule ext) (simp add: three_rooms_def later_rooms_def)
  with one two three four show ?thesis
    by (simp add: between_example_def)
qed

lemma later_rooms_range: "range_visits (range_rooms env_later) later_rooms"
  by (simp add: range_visits_def env_later_def later_rooms_def insert_commute)

lemma later_rooms_list:
  "listRoomsHandler env_later list_example later_rooms =
     (json_reply (JSON_List [room_seven, room_example, room_late, room_middle]), later_rooms)"
  by (simp add: listRoomsHandler_def list_example_def MethodGet_def env_later_def snapshot_def
      List.map_filter_def later_rooms_def sort_Slice_def insertLess_def less_CreateTime_def
      room_seven_def room_example_def room_late_def room_middle_def)

text \<open>
  C6. Whatever the map holds: when a create request that decodes has been served,
  then any requests among which there is no colliding create and no destroy of the
  new room's id, and then a list request, the list contains the room the create
  returned: an entry with the same \<open>RoomID\<close>, \<open>OwnerUserID\<close>, \<open>CreateTime\<close>, \<open>RoomType\<close> and
  \<open>RTCType\<close>.
\<close>

theorem create_then_list:
  assumes "Method r = MethodPost" and "decode_create (Body r) = Inr req"
    and "leaves_alone (generateRoomID (req_UserID req)) rs"
    and "Method r' = MethodGet"
    and "range_visits (range_rooms env')
           (run rs (snd (createRoomHandler env r rooms)))"
  shows "\<exists>room list.
     createRoomHandler env r rooms
       = (json_reply (JSON_Room room), rooms(RoomID room \<mapsto> room)) \<and>
     listRoomsHandler env' r' (run rs (snd (createRoomHandler env r rooms)))
       = (json_reply (JSON_List list), run rs (snd (createRoomHandler env r rooms))) \<and>
     room \<in> set list \<and>
     (\<exists>e \<in> set list. RoomID e = RoomID room \<and> OwnerUserID e = OwnerUserID room \<and>
        CreateTime e = CreateTime room \<and> RoomType e = RoomType room \<and>
        RTCType e = RTCType room)"
proof -
  let ?id = "generateRoomID (req_UserID req)"
  let ?room = "\<lparr>RoomID = ?id, OwnerUserID = req_UserID req,
         CreateTime = time_Now_Unix env,
         RoomType = normalizeRoomType (unicode_To_LowerCase env) (req_RoomType req),
         RTCType = chooseRTC (rand_Intn_10 env)\<rparr>"
  let ?s1 = "snd (createRoomHandler env r rooms)"
  let ?s2 = "run rs ?s1"
  let ?list = "sort_Slice less_CreateTime (snapshot (range_rooms env') ?s2)"
  have res: "createRoomHandler env r rooms
        = (json_reply (JSON_Room ?room), rooms(RoomID ?room \<mapsto> ?room))"
    by (simp add: createRoomHandler_decoded [OF assms(1,2)])
  then have "?s1 ?id = Some ?room" by simp
  then have "?s2 ?id = Some ?room"
    by (simp only: run_leaves_alone [OF assms(3)])
  then have "?room \<in> ran ?s2" by (rule ranI)
  moreover have "set ?list = set (snapshot (range_rooms env') ?s2)"
    by (rule mset_eq_setD) (rule mset_sort_Slice)
  ultimately have mem: "?room \<in> set ?list"
    by (simp only: set_snapshot [OF assms(5)])
  have lst: "listRoomsHandler env' r' ?s2 = (json_reply (JSON_List ?list), ?s2)"
    by (rule listRoomsHandler_GET [OF assms(4)])
  from res lst mem show ?thesis by blast
qed

theorem create_then_list_witness:
  "Method create_example = MethodPost \<and>
   decode_create (Body create_example) = Inr \<lparr>req_UserID = ''5'', req_RoomType = ''Live''\<rparr> \<and>
   leaves_alone ''rm_5'' between_example \<and>
   Method list_example = MethodGet \<and>
   createRoomHandler env_example create_example three_rooms
     = (json_reply (JSON_Room room_example), three_rooms(''rm_5'' \<mapsto> room_example)) \<and>
   run between_example (three_rooms(''rm_5'' \<mapsto> room_example)) = later_rooms \<and>
   range_visits (range_rooms env_later) later_rooms \<and>
   listRoomsHandler env_later list_example later_rooms
     = (json_reply (JSON_List [room_seven, room_example, room_late, room_middle]),
        later_rooms) \<and>
   room_example \<in> set [room_seven, room_example, room_late, room_middle]"
proof -
  have m: "Method create_example = MethodPost"
    and d: "decode_create (Body create_example)
        = Inr \<lparr>req_UserID = ''5'', req_RoomType = ''Live''\<rparr>"
    using create_example_decodes by blast+
  have la: "leaves_alone (generateRoomID (req_UserID \<lparr>req_UserID = ''5'', req_RoomType = ''Live''\<rparr>))
      between_example"
    using between_example_leaves_alone by (simp add: generateRoomID_def)
  have g: "Method list_example = MethodGet"
    by (simp add: list_example_def MethodGet_def)
  have c: "createRoomHandler env_example create_example three_rooms
     = (json_reply (JSON_Room room_example), three_rooms(''rm_5'' \<mapsto> room_example))"
    by (rule create_example_result)
  have s2: "run between_example (snd (createRoomHandler env_example create_example three_rooms))
      = later_rooms"
    by (simp add: c between_example_result)
  have rv: "range_visits (range_rooms env_later)
      (run between_example (snd (createRoomHandler env_example create_example three_rooms)))"
    by (simp add: s2 later_rooms_range)
  from create_then_list [OF m d la g rv]
  obtain room list where "createRoomHandler env_example create_example three_rooms
       = (json_reply (JSON_Room room), three_rooms(RoomID room \<mapsto> room))"
    and "listRoomsHandler env_later list_example
          (run between_example (snd (createRoomHandler env_example create_example three_rooms)))
       = (json_reply (JSON_List list),
          run between_example (snd (createRoomHandler env_example create_example three_rooms)))"
    and "room \<in> set list"
    by blast
  then have mem: "room_example \<in> set [room_seven, room_example, room_late, room_middle]"
    by (simp add: c s2 later_rooms_list json_reply_def)
  show ?thesis
    by (intro conjI m d between_example_leaves_alone g c between_example_result
        later_rooms_range later_rooms_list mem)
qed

subsection \<open>The invariant of the map\<close>

lemma store_inv_empty: "store_inv Map.empty"
  by (simp add: store_inv_def)

lemma store_inv_create: "store_inv rooms \<Longrightarrow> store_inv (snd (createRoomHandler env r rooms))"
  by (auto simp: store_inv_def entry_ok_def createRoomHandler_def generateRoomID_def Let_def
      split: sum.splits if_splits)

lemma store_inv_destroy: "store_inv rooms \<Longrightarrow> store_inv (snd (destroyRoomHandler r rooms))"
  by (auto simp: store_inv_def destroyRoomHandler_def split: sum.splits if_splits)

lemma store_inv_list: "store_inv rooms \<Longrightarrow> store_inv (snd (listRoomsHandler env r rooms))"
  by (simp add: listRoomsHandler_def Let_def)

lemma store_inv_serveMux: "store_inv rooms \<Longrightarrow> store_inv (snd (serveMux env r rooms))"
  by (simp add: serveMux_def store_inv_create store_inv_destroy store_inv_list)

lemma store_inv_run: "store_inv rooms \<Longrightarrow> store_inv (run rs rooms)"
  by (induction rs arbitrary: rooms) (auto simp: store_inv_serveMux)

lemma session_example_result: "run session_example Map.empty = [''rm_7'' \<mapsto> room_seven]"
  by (simp add: session_example_def serveMux_def create_example_def create_seven_def
      list_example_def destroy_example_def env_example_def env_seven_def room_seven_def
      createRoomHandler_def listRoomsHandler_def destroyRoomHandler_def MethodPost_def
      MethodGet_def decode_create_def decode_destroy_def zero_CreateRoomRequest_def
      zero_DestroyRoomRequest_def generateRoomID_def chooseRTC_def chooseRTC_arm_def
      normalizeRoomType_def ToLower_def isASCII_def toLowerASCII_def char_of_eq_iff Let_def
      fun_upd_twist)

text \<open>
  C8. Starting from the empty map, after any sequence of requests every entry of the
  map has its room's \<open>RoomID\<close> as key, and that id is \<open>rm_\<close> followed by the room's
  \<open>OwnerUserID\<close>. Each handler, the routing and a whole run preserve this.
\<close>

theorem store_key_is_room_id:
  "store_inv (run rs Map.empty) \<and>
   (store_inv rooms \<longrightarrow>
      store_inv (snd (createRoomHandler env r rooms)) \<and>
      store_inv (snd (destroyRoomHandler r rooms)) \<and>
      store_inv (snd (listRoomsHandler env r rooms)) \<and>
      store_inv (snd (serveMux env r rooms)) \<and>
      store_inv (run rs rooms))"
  by (simp add: store_inv_run store_inv_empty store_inv_create store_inv_destroy
      store_inv_list store_inv_serveMux)

theorem store_key_is_room_id_witness:
  "run session_example Map.empty = [''rm_7'' \<mapsto> room_seven] \<and>
   entry_ok ''rm_7'' room_seven \<and>
   store_inv [''rm_5'' \<mapsto> room_example] \<and>
   store_inv (snd (createRoomHandler env_seven create_seven [''rm_5'' \<mapsto> room_example]))"
proof -
  have one: "store_inv [''rm_5'' \<mapsto> room_example]"
    by (simp add: store_inv_def entry_ok_def room_example_def)
  from store_key_is_room_id [of session_example "[''rm_5'' \<mapsto> room_example]" env_seven create_seven]
  have a: "store_inv (run session_example Map.empty)"
    and b: "store_inv [''rm_5'' \<mapsto> room_example] \<longrightarrow>
       store_inv (snd (createRoomHandler env_seven create_seven [''rm_5'' \<mapsto> room_example]))"
    by blast+
  from a have "entry_ok ''rm_7'' room_seven"
    by (simp add: session_example_result store_inv_def)
  with one b show ?thesis
    by (simp add: session_example_result)
qed

subsection \<open>A create request without its fields\<close>

lemma Decode_CreateRoomRequest_no_userid:
  assumes "Decode_CreateRoomRequest ms req0 = Inr req" and "''userid'' \<notin> fst ` set ms"
  shows "req_UserID req = req_UserID req0"
  using assms
  by (induction ms req0 rule: Decode_CreateRoomRequest.induct)
     (auto split: if_splits json.splits)

lemma Decode_CreateRoomRequest_no_room_type:
  assumes "Decode_CreateRoomRequest ms req0 = Inr req" and "''room_type'' \<notin> fst ` set ms"
  shows "req_RoomType req = req_RoomType req0"
  using assms
  by (induction ms req0 rule: Decode_CreateRoomRequest.induct)
     (auto split: if_splits json.splits)

lemma normalizeRoomType_empty: "normalizeRoomType uni [] = RoomLive"
  by (simp add: normalizeRoomType_def ToLower_def isASCII_def)

lemma create_empty_object_decodes:
  "Method create_empty_object = MethodPost \<and> Body create_empty_object = Object [] \<and>
   decode_create (Body create_empty_object) = Inr \<lparr>req_UserID = [], req_RoomType = []\<rparr>"
  by (simp add: create_empty_object_def MethodPost_def decode_create_def
      zero_CreateRoomRequest_def)

text \<open>
  C10. A create request whose body decodes is never rejected for a missing field. A
  field whose member is absent from the object stays the empty string: without
  \<open>userid\<close> the room gets id \<open>rm_\<close> and an empty owner, without \<open>room_type\<close> it gets
  room type Live; the room is returned with status 200 and stored. For the empty
  object that is the room \<open>rm_\<close> with empty owner and type Live.
\<close>

theorem create_accepts_missing_fields:
  assumes "Method r = MethodPost" and "Body r = Object ms"
    and "decode_create (Body r) = Inr req"
  shows "\<exists>room. createRoomHandler env r rooms
        = (json_reply (JSON_Room room), rooms(RoomID room \<mapsto> room)) \<and>
     StatusCode (fst (createRoomHandler env r rooms)) = StatusOK \<and>
     (''userid'' \<notin> fst ` set ms \<longrightarrow>
        req_UserID req = [] \<and> RoomID room = ''rm_'' \<and> OwnerUserID room = []) \<and>
     (''room_type'' \<notin> fst ` set ms \<longrightarrow>
        req_RoomType req = [] \<and> RoomType room = RoomLive) \<and>
     (ms = [] \<longrightarrow>
        room = \<lparr>RoomID = ''rm_'', OwnerUserID = [], CreateTime = time_Now_Unix env,
                 RoomType = RoomLive, RTCType = chooseRTC (rand_Intn_10 env)\<rparr>)"
proof -
  let ?room = "\<lparr>RoomID = generateRoomID (req_UserID req), OwnerUserID = req_UserID req,
         CreateTime = time_Now_Unix env,
         RoomType = normalizeRoomType (unicode_To_LowerCase env) (req_RoomType req),
         RTCType = chooseRTC (rand_Intn_10 env)\<rparr>"
  from assms(2,3) have dec: "Decode_CreateRoomRequest ms zero_CreateRoomRequest = Inr req"
    by (simp add: decode_create_def)
  have res: "createRoomHandler env r rooms
        = (json_reply (JSON_Room ?room), rooms(RoomID ?room \<mapsto> ?room))"
    by (simp add: createRoomHandler_decoded [OF assms(1,3)])
  have st: "StatusCode (fst (createRoomHandler env r rooms)) = StatusOK"
    by (simp add: res json_reply_def)
  have u: "req_UserID req = [] \<and> RoomID ?room = ''rm_'' \<and> OwnerUserID ?room = []"
    if "''userid'' \<notin> fst ` set ms"
    using Decode_CreateRoomRequest_no_userid [OF dec that]
    by (simp add: zero_CreateRoomRequest_def generateRoomID_def)
  have t: "req_RoomType req = [] \<and> RoomType ?room = RoomLive"
    if "''room_type'' \<notin> fst ` set ms"
    using Decode_CreateRoomRequest_no_room_type [OF dec that]
    by (simp add: zero_CreateRoomRequest_def normalizeRoomType_empty)
  have e: "?room = \<lparr>RoomID = ''rm_'', OwnerUserID = [], CreateTime = time_Now_Unix env,
                 RoomType = RoomLive, RTCType = chooseRTC (rand_Intn_10 env)\<rparr>"
    if "ms = []"
    using u t that by (simp add: generateRoomID_def normalizeRoomType_empty)
  from res st u t e show ?thesis by blast
qed

theorem create_accepts_missing_fields_witness:
  "Method create_empty_object = MethodPost \<and> Body create_empty_object = Object [] \<and>
   decode_create (Body create_empty_object) = Inr \<lparr>req_UserID = [], req_RoomType = []\<rparr> \<and>
   ''userid'' \<notin> fst ` set ([] :: (string \<times> json) list) \<and>
   ''room_type'' \<notin> fst ` set ([] :: (string \<times> json) list) \<and>
   createRoomHandler env_example create_empty_object Map.empty
     = (json_reply (JSON_Room room_no_owner), [''rm_'' \<mapsto> room_no_owner])"
proof -
  note d = create_empty_object_decodes
  from create_accepts_missing_fields [OF conjunct1 [OF d] conjunct1 [OF conjunct2 [OF d]]
      conjunct2 [OF conjunct2 [OF d]], of env_example Map.empty]
  obtain room where r: "createRoomHandler env_example create_empty_object Map.empty
        = (json_reply (JSON_Room room), [RoomID room \<mapsto> room])"
    and e: "room = \<lparr>RoomID = ''rm_'', OwnerUserID = [], CreateTime = time_Now_Unix env_example,
                 RoomType = RoomLive, RTCType = chooseRTC (rand_Intn_10 env_example)\<rparr>"
    by blast
  from e have "room = room_no_owner"
    by (simp add: room_no_owner_def env_example_def chooseRTC_def chooseRTC_arm_def)
  with r have fin: "createRoomHandler env_example create_empty_object Map.empty
     = (json_reply (JSON_Room room_no_owner), [''rm_'' \<mapsto> room_no_owner])"
    by (simp add: room_no_owner_def)
  have n1: "''userid'' \<notin> fst ` set ([] :: (string \<times> json) list)"
    and n2: "''room_type'' \<notin> fst ` set ([] :: (string \<times> json) list)"
    by simp_all
  from d have d1: "Method create_empty_object = MethodPost"
    and d2: "Body create_empty_object = Object []"
    and d3: "decode_create (Body create_empty_object)
               = Inr \<lparr>req_UserID = [], req_RoomType = []\<rparr>"
    by blast+
  show ?thesis by (intro conjI d1 d2 d3 n1 n2 fin)
qed

end
